theory Spec2Isabelle
  imports Main "HOL-Library.Sublist" "HOL-Library.Multiset"
begin

section \<open>Data model (package types)\<close>

text \<open>
  Timestamps are \<open>time.Time\<close> values, read as a number of nanoseconds counted from Go's
  zero time; \<open>0\<close> is the zero value (\<open>IsZero\<close>). Durations are nanoseconds too.
\<close>

type_synonym time = int

definition Minute :: int where
  "Minute = 60000000000"

definition Hour :: int where
  "Hour = 60 * Minute"

text \<open>
  The three child tables. The surrogate key \<open>ID uint\<close> of each child struct is tagged
  \<open>json:"-"\<close>, is assigned by the database and is never read or written by any function of
  the repository; a table is kept as the list of its rows in insertion order, which is all
  the surrogate key records.
\<close>

record Capability =
  cap_ServiceID :: string
  cap_Name :: string
  cap_Enabled :: bool

record Category =
  cat_ServiceID :: string
  cat_Name :: string

record MetadataItem =
  md_ServiceID :: string
  md_Key :: string
  md_Value :: string

text \<open>
  \<open>MCPService\<close>. The handlers assign a field \<open>ApiDocs\<close> whose declaration is not part of
  the available revision of the struct; it is only ever copied from the request, and is taken
  to be a string.
\<close>

record MCPService =
  ID :: string
  Name :: string
  Description :: string
  URL :: string
  Capabilities :: "Capability list"
  Categories :: "Category list"
  CreatedAt :: time
  LastSeen :: time
  Metadata :: "MetadataItem list"
  ApiDocs :: string

text \<open>
  \<open>ServiceRegistrationRequest\<close> after JSON decoding. A Go map or slice field is \<open>nil\<close>
  (\<open>None\<close>) when the body has no such field, and non-nil, possibly empty, when the body
  supplies one. A Go map is given as the list of its entries in the order in which
  \<open>range\<close> yields them; its keys are distinct (\<open>wf_request\<close>).
\<close>

record ServiceRegistrationRequest =
  req_Name :: string
  req_Description :: string
  req_URL :: string
  req_Capabilities :: "(string \<times> bool) list option"
  req_Categories :: "string list option"
  req_Metadata :: "(string \<times> string) list option"
  req_ApiDocs :: string

definition wf_request :: "ServiceRegistrationRequest \<Rightarrow> bool" where
  "wf_request r =
     (distinct (map fst (case req_Capabilities r of None \<Rightarrow> [] | Some m \<Rightarrow> m)) \<and>
      distinct (map fst (case req_Metadata r of None \<Rightarrow> [] | Some m \<Rightarrow> m)))"

record ServiceResponse =
  resp_ID :: string
  resp_Name :: string
  resp_Description :: string
  resp_URL :: string
  resp_Capabilities :: "string \<rightharpoonup> bool"
  resp_Categories :: "string list"
  resp_CreatedAt :: time
  resp_LastSeen :: time
  resp_Metadata :: "string \<rightharpoonup> string"

text \<open>\<open>ServiceModelToResponse\<close>: a later row of the same name or key overwrites an earlier one.\<close>

definition ServiceModelToResponse :: "MCPService \<Rightarrow> ServiceResponse" where
  "ServiceModelToResponse service =
     \<lparr>resp_ID = ID service,
      resp_Name = Name service,
      resp_Description = Description service,
      resp_URL = URL service,
      resp_Capabilities =
        fold (\<lambda>cap capabilities. capabilities(cap_Name cap \<mapsto> cap_Enabled cap))
          (Capabilities service) Map.empty,
      resp_Categories = map cat_Name (Categories service),
      resp_CreatedAt = CreatedAt service,
      resp_LastSeen = LastSeen service,
      resp_Metadata =
        fold (\<lambda>item metadata. metadata(md_Key item \<mapsto> md_Value item))
          (Metadata service) Map.empty\<rparr>"

text \<open>The zero value of \<open>MCPService\<close>, which a failed query leaves in its destination.\<close>

definition zero_MCPService :: MCPService where
  "zero_MCPService =
     \<lparr>ID = [], Name = [], Description = [], URL = [], Capabilities = [], Categories = [],
      CreatedAt = 0, LastSeen = 0, Metadata = [], ApiDocs = []\<rparr>"

section \<open>The entity store, as the handlers use it through GORM\<close>

text \<open>
  The committed contents of the four tables, each in insertion order.
\<close>

record store =
  mcp_services :: "MCPService list"
  capabilities :: "Capability list"
  categories :: "Category list"
  metadata_items :: "MetadataItem list"

text \<open>
  A store statement can fail (connectivity, constraint, aborted transaction). The outcome of
  the statements still to come is a fault schedule: its head says whether the next statement
  fails, and a schedule that has run out means that every further statement succeeds. A
  database handle is the table contents it sees together with the schedule.
\<close>

type_synonym faults = "bool list"

type_synonym conn = "store \<times> faults"

definition fails :: "faults \<Rightarrow> bool" where
  "fails fs = (case fs of [] \<Rightarrow> False | b # _ \<Rightarrow> b)"

text \<open>
  A row of \<open>mcp_services\<close> has no association columns: what is stored is the struct with
  its association slices cleared. Every struct the repository passes to \<open>Create\<close>,
  \<open>Save\<close> or \<open>Delete\<close> has nil association slices.
\<close>

definition row_of :: "MCPService \<Rightarrow> MCPService" where
  "row_of s = s\<lparr>Capabilities := [], Categories := [], Metadata := []\<rparr>"

text \<open>
  \<open>DB.Create(&service)\<close>. The primary key \<open>id\<close> must be new. \<open>CreatedAt\<close> carries
  \<open>autoCreateTime\<close>: when it is zero, the create callback fills it with its own reading
  \<open>tc\<close> of the clock. Each operation returns whether \<open>Error\<close> is non-nil, and the handle.
\<close>

definition Create_service :: "MCPService \<Rightarrow> time \<Rightarrow> conn \<Rightarrow> bool \<times> conn" where
  "Create_service s tc c =
     (case c of (db, fs) \<Rightarrow>
        if fails fs \<or> ID s \<in> set (map ID (mcp_services db)) then (True, db, tl fs)
        else (False,
              db\<lparr>mcp_services := mcp_services db @
                    [row_of (s\<lparr>CreatedAt := (if CreatedAt s = 0 then tc else CreatedAt s)\<rparr>)]\<rparr>,
              tl fs))"

definition Create_capability :: "Capability \<Rightarrow> conn \<Rightarrow> bool \<times> conn" where
  "Create_capability x c =
     (case c of (db, fs) \<Rightarrow>
        if fails fs then (True, db, tl fs)
        else (False, db\<lparr>capabilities := capabilities db @ [x]\<rparr>, tl fs))"

definition Create_category :: "Category \<Rightarrow> conn \<Rightarrow> bool \<times> conn" where
  "Create_category x c =
     (case c of (db, fs) \<Rightarrow>
        if fails fs then (True, db, tl fs)
        else (False, db\<lparr>categories := categories db @ [x]\<rparr>, tl fs))"

definition Create_metadata :: "MetadataItem \<Rightarrow> conn \<Rightarrow> bool \<times> conn" where
  "Create_metadata x c =
     (case c of (db, fs) \<Rightarrow>
        if fails fs then (True, db, tl fs)
        else (False, db\<lparr>metadata_items := metadata_items db @ [x]\<rparr>, tl fs))"

text \<open>\<open>DB.Where("service_id = ?", id).Delete(&T{})\<close> for the three child tables.\<close>

definition Delete_capabilities :: "string \<Rightarrow> conn \<Rightarrow> bool \<times> conn" where
  "Delete_capabilities sid c =
     (case c of (db, fs) \<Rightarrow>
        if fails fs then (True, db, tl fs)
        else (False,
              db\<lparr>capabilities := filter (\<lambda>x. cap_ServiceID x \<noteq> sid) (capabilities db)\<rparr>,
              tl fs))"

definition Delete_categories :: "string \<Rightarrow> conn \<Rightarrow> bool \<times> conn" where
  "Delete_categories sid c =
     (case c of (db, fs) \<Rightarrow>
        if fails fs then (True, db, tl fs)
        else (False,
              db\<lparr>categories := filter (\<lambda>x. cat_ServiceID x \<noteq> sid) (categories db)\<rparr>,
              tl fs))"

definition Delete_metadata :: "string \<Rightarrow> conn \<Rightarrow> bool \<times> conn" where
  "Delete_metadata sid c =
     (case c of (db, fs) \<Rightarrow>
        if fails fs then (True, db, tl fs)
        else (False,
              db\<lparr>metadata_items := filter (\<lambda>x. md_ServiceID x \<noteq> sid) (metadata_items db)\<rparr>,
              tl fs))"

text \<open>
  \<open>DB.Delete(&service)\<close>: deletes the row with the struct's primary key. The tags
  \<open>gorm:"foreignKey:ServiceID"\<close> of \<open>MCPService\<close> make \<open>AutoMigrate\<close> put a foreign key
  on \<open>service_id\<close> of each child table, so the store rejects the deletion of a service
  to which a child row still refers. (The same key asks for the service of a new child row
  to exist; every child insert of the handlers comes after the insert or the read of that
  service in the same call.)
\<close>

definition referenced :: "string \<Rightarrow> store \<Rightarrow> bool" where
  "referenced sid db =
     (sid \<in> set (map cap_ServiceID (capabilities db)) \<or>
      sid \<in> set (map cat_ServiceID (categories db)) \<or>
      sid \<in> set (map md_ServiceID (metadata_items db)))"

definition Delete_service :: "MCPService \<Rightarrow> conn \<Rightarrow> bool \<times> conn" where
  "Delete_service s c =
     (case c of (db, fs) \<Rightarrow>
        if fails fs \<or> referenced (ID s) db then (True, db, tl fs)
        else (False,
              db\<lparr>mcp_services := filter (\<lambda>x. ID x \<noteq> ID s) (mcp_services db)\<rparr>,
              tl fs))"

text \<open>
  \<open>DB.Save(&service)\<close>: writes every column of the row with the struct's primary key, and
  inserts the row when there is none.
\<close>

definition Save_service :: "MCPService \<Rightarrow> conn \<Rightarrow> bool \<times> conn" where
  "Save_service s c =
     (case c of (db, fs) \<Rightarrow>
        if fails fs then (True, db, tl fs)
        else if ID s \<in> set (map ID (mcp_services db))
        then (False,
              db\<lparr>mcp_services :=
                    map (\<lambda>x. if ID x = ID s then row_of s else x) (mcp_services db)\<rparr>,
              tl fs)
        else (False, db\<lparr>mcp_services := mcp_services db @ [row_of s]\<rparr>, tl fs))"

text \<open>
  \<open>DB.First(&service, "id = ?", id)\<close>: \<open>None\<close> stands for a non-nil \<open>Error\<close>, which is
  what a statement failure and an absent row (\<open>ErrRecordNotFound\<close>) both give.
\<close>

definition First_service :: "string \<Rightarrow> conn \<Rightarrow> MCPService option \<times> conn" where
  "First_service sid c =
     (case c of (db, fs) \<Rightarrow>
        if fails fs then (None, db, tl fs)
        else (find (\<lambda>x. ID x = sid) (mcp_services db), db, tl fs))"

text \<open>
  \<open>Preload("Capabilities").Preload("Categories").Preload("Metadata")\<close>: the association
  slices of a loaded row are filled from the child tables.
\<close>

definition preload :: "store \<Rightarrow> MCPService \<Rightarrow> MCPService" where
  "preload db s =
     s\<lparr>Capabilities := filter (\<lambda>x. cap_ServiceID x = ID s) (capabilities db),
       Categories := filter (\<lambda>x. cat_ServiceID x = ID s) (categories db),
       Metadata := filter (\<lambda>x. md_ServiceID x = ID s) (metadata_items db)\<rparr>"

definition First_preload :: "string \<Rightarrow> conn \<Rightarrow> MCPService option \<times> conn" where
  "First_preload sid c =
     (case c of (db, fs) \<Rightarrow>
        if fails fs then (None, db, tl fs)
        else (map_option (preload db) (find (\<lambda>x. ID x = sid) (mcp_services db)), db, tl fs))"

section \<open>Handlers (package handlers)\<close>

text \<open>
  \<open>errorResponse(w, message, code)\<close> with code 400, 404 and 500. In the words of the
  specification these are \<open>ValidationError\<close>, \<open>NotFound\<close> and \<open>StoreError\<close>.
\<close>

datatype error = BadRequest string | NotFound string | InternalServerError string


text \<open>
  A request body is handed to a handler as the outcome of \<open>json.NewDecoder(r.Body).Decode\<close>:
  \<open>Inl\<close> the decoder's error text, \<open>Inr\<close> the decoded request.
\<close>

type_synonym body = "string + ServiceRegistrationRequest"

definition entries :: "'a list option \<Rightarrow> 'a list" where
  "entries m = (case m of None \<Rightarrow> [] | Some xs \<Rightarrow> xs)"

subsection \<open>Registration, \<open>src/pkg/handlers/handlers.go\<close>\<close>

text \<open>
  The three insertion loops of \<open>CreateServiceHandler\<close> and \<open>UpdateServiceHandler\<close> in
  \<open>handlers.go\<close>: the result of each \<open>h.DB.Create\<close> is dropped.
\<close>

fun add_capabilities :: "string \<Rightarrow> (string \<times> bool) list \<Rightarrow> conn \<Rightarrow> conn" where
  "add_capabilities serviceID [] c = c"
| "add_capabilities serviceID ((name, enabled) # rest) c =
     add_capabilities serviceID rest
       (snd (Create_capability
          \<lparr>cap_ServiceID = serviceID, cap_Name = name, cap_Enabled = enabled\<rparr> c))"

fun add_categories :: "string \<Rightarrow> string list \<Rightarrow> conn \<Rightarrow> conn" where
  "add_categories serviceID [] c = c"
| "add_categories serviceID (name # rest) c =
     add_categories serviceID rest
       (snd (Create_category \<lparr>cat_ServiceID = serviceID, cat_Name = name\<rparr> c))"

fun add_metadata :: "string \<Rightarrow> (string \<times> string) list \<Rightarrow> conn \<Rightarrow> conn" where
  "add_metadata serviceID [] c = c"
| "add_metadata serviceID ((key, val) # rest) c =
     add_metadata serviceID rest
       (snd (Create_metadata
          \<lparr>md_ServiceID = serviceID, md_Key = key, md_Value = val\<rparr> c))"

definition new_service :: "ServiceRegistrationRequest \<Rightarrow> string \<Rightarrow> time \<Rightarrow> MCPService" where
  "new_service request serviceID now =
     \<lparr>ID = serviceID, Name = req_Name request, Description = req_Description request,
      URL = req_URL request, Capabilities = [], Categories = [], CreatedAt = 0,
      LastSeen = now, Metadata = [], ApiDocs = req_ApiDocs request\<rparr>"

definition missing_required :: "ServiceRegistrationRequest \<Rightarrow> bool" where
  "missing_required request =
     (req_Name request = [] \<or> req_URL request = [] \<or>
      req_Capabilities request = None \<or> req_Categories request = None)"

text \<open>
  \<open>CreateServiceHandler\<close> of \<open>handlers.go\<close>. \<open>serviceID\<close> is the value of
  \<open>uuid.New().String()\<close>, \<open>now\<close> the handler's \<open>time.Now()\<close>, \<open>tc\<close> the clock reading
  of the create callback. \<open>Inr\<close> is the 201 response.
\<close>

definition CreateServiceHandler ::
  "body \<Rightarrow> string \<Rightarrow> time \<Rightarrow> time \<Rightarrow> conn \<Rightarrow> (error + ServiceResponse) \<times> conn" where
  "CreateServiceHandler b serviceID now tc c =
     (case b of
        Inl err \<Rightarrow> (Inl (BadRequest err), c)
      | Inr request \<Rightarrow>
          if missing_required request
          then (Inl (BadRequest ''Missing required fields''), c)
          else
            (case Create_service (new_service request serviceID now) tc c of
               (result_err, c1) \<Rightarrow>
                 if result_err
                 then (Inl (InternalServerError ''Failed to register service''), c1)
                 else
                   (let c2 = add_capabilities serviceID (entries (req_Capabilities request)) c1;
                        c3 = add_categories serviceID (entries (req_Categories request)) c2;
                        c4 = add_metadata serviceID (entries (req_Metadata request)) c3
                    in case First_preload serviceID c4 of
                         (createdService, c5) \<Rightarrow>
                           (Inr (ServiceModelToResponse
                                   (case createdService of
                                      None \<Rightarrow> zero_MCPService
                                    | Some s \<Rightarrow> s)),
                            c5))))"

subsection \<open>Registration, \<open>src/unnamed/part_001\<close>: one transaction\<close>

text \<open>
  \<open>tx := h.DB.Begin()\<close> gives a handle on a working copy of the tables; \<open>tx.Commit()\<close>
  makes the working copy the committed contents, unless it fails; \<open>tx.Rollback()\<close>, and a
  transaction that is never committed, leave the committed contents as they were at
  \<open>Begin\<close>. The handler keeps \<open>h.DB\<close>, whose tables are the committed ones. \<open>Begin\<close>
  and \<open>Commit\<close> are statements of the schedule; the result of \<open>Rollback\<close> is never looked
  at, and it takes no entry of the schedule.
\<close>

definition Begin :: "conn \<Rightarrow> bool \<times> conn" where
  "Begin c = (case c of (db, fs) \<Rightarrow> (fails fs, db, tl fs))"

definition Rollback :: "store \<Rightarrow> conn \<Rightarrow> conn" where
  "Rollback committed tx = (committed, snd tx)"

definition Commit :: "store \<Rightarrow> conn \<Rightarrow> bool \<times> conn" where
  "Commit committed tx =
     (case tx of (db, fs) \<Rightarrow>
        if fails fs then (True, committed, tl fs) else (False, db, tl fs))"

text \<open>The insertion loops of \<open>part_001\<close>: the first failing \<open>tx.Create\<close> ends the loop.\<close>

fun add_capabilities_tx :: "string \<Rightarrow> (string \<times> bool) list \<Rightarrow> conn \<Rightarrow> bool \<times> conn" where
  "add_capabilities_tx serviceID [] tx = (False, tx)"
| "add_capabilities_tx serviceID ((name, enabled) # rest) tx =
     (case Create_capability
             \<lparr>cap_ServiceID = serviceID, cap_Name = name, cap_Enabled = enabled\<rparr> tx of
        (err, tx') \<Rightarrow> if err then (True, tx') else add_capabilities_tx serviceID rest tx')"

fun add_categories_tx :: "string \<Rightarrow> string list \<Rightarrow> conn \<Rightarrow> bool \<times> conn" where
  "add_categories_tx serviceID [] tx = (False, tx)"
| "add_categories_tx serviceID (name # rest) tx =
     (case Create_category \<lparr>cat_ServiceID = serviceID, cat_Name = name\<rparr> tx of
        (err, tx') \<Rightarrow> if err then (True, tx') else add_categories_tx serviceID rest tx')"

fun add_metadata_tx :: "string \<Rightarrow> (string \<times> string) list \<Rightarrow> conn \<Rightarrow> bool \<times> conn" where
  "add_metadata_tx serviceID [] tx = (False, tx)"
| "add_metadata_tx serviceID ((key, val) # rest) tx =
     (case Create_metadata
             \<lparr>md_ServiceID = serviceID, md_Key = key, md_Value = val\<rparr> tx of
        (err, tx') \<Rightarrow> if err then (True, tx') else add_metadata_tx serviceID rest tx')"

text \<open>
  The pattern \<open>if err := tx. ... .Error; err != nil { tx.Rollback(); errorResponse(w, msg, 500);
  return }\<close> that follows every statement of a transaction: on an error the handler answers
  500 with \<open>msg\<close> after the rollback, otherwise it goes on with the transaction.
\<close>

definition or_rollback ::
  "bool \<times> conn \<Rightarrow> string \<Rightarrow> store \<Rightarrow> (conn \<Rightarrow> (error + 'a) \<times> conn) \<Rightarrow> (error + 'a) \<times> conn" where
  "or_rollback r msg committed continue =
     (case r of (err, tx) \<Rightarrow>
        if err then (Inl (InternalServerError msg), Rollback committed tx) else continue tx)"

text \<open>\<open>CreateServiceHandler\<close> of \<open>part_001\<close>.\<close>

definition CreateServiceHandler_part_001 ::
  "body \<Rightarrow> string \<Rightarrow> time \<Rightarrow> time \<Rightarrow> conn \<Rightarrow> (error + ServiceResponse) \<times> conn" where
  "CreateServiceHandler_part_001 b serviceID now tc c =
     (case b of
        Inl err \<Rightarrow> (Inl (BadRequest err), c)
      | Inr request \<Rightarrow>
          if missing_required request
          then (Inl (BadRequest ''Missing required fields''), c)
          else
            (case Begin c of
               (tx_err, tx) \<Rightarrow>
                 if tx_err
                 then (Inl (InternalServerError ''Failed to start transaction''), fst c, snd tx)
                 else
                   or_rollback (Create_service (new_service request serviceID now) tc tx)
                     ''Failed to register service'' (fst c) (\<lambda>tx1.
                   or_rollback
                     (add_capabilities_tx serviceID (entries (req_Capabilities request)) tx1)
                     ''Failed to add capability'' (fst c) (\<lambda>tx2.
                   or_rollback
                     (add_categories_tx serviceID (entries (req_Categories request)) tx2)
                     ''Failed to add category'' (fst c) (\<lambda>tx3.
                   or_rollback
                     (add_metadata_tx serviceID (entries (req_Metadata request)) tx3)
                     ''Failed to add metadata'' (fst c) (\<lambda>tx4.
                   (case Commit (fst c) tx4 of
                      (commit_err, c5) \<Rightarrow>
                        if commit_err
                        then (Inl (InternalServerError ''Failed to commit transaction''), c5)
                        else
                          (case First_preload serviceID c5 of
                             (createdService, c6) \<Rightarrow>
                               (case createdService of
                                  None \<Rightarrow>
                                    (Inl (InternalServerError
                                       ''Service created but failed to retrieve details''), c6)
                                | Some s \<Rightarrow> (Inr (ServiceModelToResponse s), c6))))))))))"

subsection \<open>Get\<close>

text \<open>\<open>GetServiceHandler\<close>, the same in both revisions.\<close>

definition GetServiceHandler :: "string \<Rightarrow> conn \<Rightarrow> (error + ServiceResponse) \<times> conn" where
  "GetServiceHandler serviceID c =
     (if serviceID = [] then (Inl (BadRequest ''Invalid service ID''), c)
      else
        (case First_preload serviceID c of
           (service, c1) \<Rightarrow>
             (case service of
                None \<Rightarrow> (Inl (NotFound ''Service not found''), c1)
              | Some s \<Rightarrow> (Inr (ServiceModelToResponse s), c1))))"

subsection \<open>Update\<close>

definition updated_service ::
  "MCPService \<Rightarrow> ServiceRegistrationRequest \<Rightarrow> time \<Rightarrow> MCPService" where
  "updated_service existingService request now =
     existingService\<lparr>Name := req_Name request, Description := req_Description request,
       URL := req_URL request, LastSeen := now, ApiDocs := req_ApiDocs request\<rparr>"

text \<open>
  \<open>UpdateServiceHandler\<close> of \<open>handlers.go\<close>; \<open>now\<close> is its \<open>time.Now()\<close>. No result of
  \<open>Save\<close>, \<open>Delete\<close>, \<open>Create\<close> or of the final query is looked at.
\<close>

definition UpdateServiceHandler ::
  "string \<Rightarrow> body \<Rightarrow> time \<Rightarrow> conn \<Rightarrow> (error + ServiceResponse) \<times> conn" where
  "UpdateServiceHandler serviceID b now c =
     (if serviceID = [] then (Inl (BadRequest ''Invalid service ID''), c)
      else
        (case First_service serviceID c of
           (result, c1) \<Rightarrow>
             (case result of
                None \<Rightarrow> (Inl (NotFound ''Service not found''), c1)
              | Some existingService \<Rightarrow>
                  (case b of
                     Inl err \<Rightarrow> (Inl (BadRequest err), c1)
                   | Inr request \<Rightarrow>
                       (let c2 = snd (Save_service (updated_service existingService request now) c1);
                            c3 = snd (Delete_capabilities serviceID c2);
                            c4 = add_capabilities serviceID (entries (req_Capabilities request)) c3;
                            c5 = snd (Delete_categories serviceID c4);
                            c6 = add_categories serviceID (entries (req_Categories request)) c5;
                            c7 = snd (Delete_metadata serviceID c6);
                            c8 = add_metadata serviceID (entries (req_Metadata request)) c7
                        in case First_preload serviceID c8 of
                             (updatedService, c9) \<Rightarrow>
                               (Inr (ServiceModelToResponse
                                       (case updatedService of
                                          None \<Rightarrow> zero_MCPService
                                        | Some s \<Rightarrow> s)),
                                c9))))))"

text \<open>
  \<open>UpdateServiceHandler\<close> of \<open>part_001\<close>: the existence check and the decoding come before
  the transaction, the final query after it.
\<close>

definition UpdateServiceHandler_part_001 ::
  "string \<Rightarrow> body \<Rightarrow> time \<Rightarrow> conn \<Rightarrow> (error + ServiceResponse) \<times> conn" where
  "UpdateServiceHandler_part_001 serviceID b now c =
     (if serviceID = [] then (Inl (BadRequest ''Invalid service ID''), c)
      else
        (case First_service serviceID c of
           (result, c1) \<Rightarrow>
             (case result of
                None \<Rightarrow> (Inl (NotFound ''Service not found''), c1)
              | Some existingService \<Rightarrow>
                  (case b of
                     Inl err \<Rightarrow> (Inl (BadRequest err), c1)
                   | Inr request \<Rightarrow>
                       (case Begin c1 of
                          (tx_err, tx) \<Rightarrow>
                            if tx_err
                            then (Inl (InternalServerError ''Failed to start transaction''),
                                  fst c1, snd tx)
                            else
                              or_rollback
                                (Save_service (updated_service existingService request now) tx)
                                ''Failed to update service'' (fst c1) (\<lambda>tx1.
                              or_rollback (Delete_capabilities serviceID tx1)
                                ''Failed to remove old capabilities'' (fst c1) (\<lambda>tx2.
                              or_rollback
                                (add_capabilities_tx serviceID
                                   (entries (req_Capabilities request)) tx2)
                                ''Failed to add capability'' (fst c1) (\<lambda>tx3.
                              or_rollback (Delete_categories serviceID tx3)
                                ''Failed to remove old categories'' (fst c1) (\<lambda>tx4.
                              or_rollback
                                (add_categories_tx serviceID
                                   (entries (req_Categories request)) tx4)
                                ''Failed to add category'' (fst c1) (\<lambda>tx5.
                              or_rollback (Delete_metadata serviceID tx5)
                                ''Failed to remove old metadata'' (fst c1) (\<lambda>tx6.
                              or_rollback
                                (add_metadata_tx serviceID
                                   (entries (req_Metadata request)) tx6)
                                ''Failed to add metadata'' (fst c1) (\<lambda>tx7.
                              (case Commit (fst c1) tx7 of
                                 (commit_err, c8) \<Rightarrow>
                                   if commit_err
                                   then (Inl (InternalServerError
                                           ''Failed to commit transaction''), c8)
                                   else
                                     (case First_preload serviceID c8 of
                                        (updatedService, c9) \<Rightarrow>
                                          (case updatedService of
                                             None \<Rightarrow>
                                               (Inl (InternalServerError
                                                  ''Service updated but failed to retrieve details''),
                                                c9)
                                           | Some s \<Rightarrow>
                                               (Inr (ServiceModelToResponse s), c9))))))))))))))))"

subsection \<open>Unregister\<close>

text \<open>\<open>DeleteServiceHandler\<close> of \<open>handlers.go\<close>; \<open>Inr\<close> carries the message of the 200 answer.\<close>

definition DeleteServiceHandler :: "string \<Rightarrow> conn \<Rightarrow> (error + string) \<times> conn" where
  "DeleteServiceHandler serviceID c =
     (if serviceID = [] then (Inl (BadRequest ''Invalid service ID''), c)
      else
        (case First_service serviceID c of
           (result, c1) \<Rightarrow>
             (case result of
                None \<Rightarrow> (Inl (NotFound ''Service not found''), c1)
              | Some service \<Rightarrow>
                  (let c2 = snd (Delete_capabilities serviceID c1);
                       c3 = snd (Delete_categories serviceID c2);
                       c4 = snd (Delete_metadata serviceID c3);
                       c5 = snd (Delete_service service c4)
                   in (Inr ''Service unregistered'', c5)))))"

text \<open>\<open>DeleteServiceHandler\<close> of \<open>part_001\<close>.\<close>

definition DeleteServiceHandler_part_001 :: "string \<Rightarrow> conn \<Rightarrow> (error + string) \<times> conn" where
  "DeleteServiceHandler_part_001 serviceID c =
     (if serviceID = [] then (Inl (BadRequest ''Invalid service ID''), c)
      else
        (case First_service serviceID c of
           (result, c1) \<Rightarrow>
             (case result of
                None \<Rightarrow> (Inl (NotFound ''Service not found''), c1)
              | Some service \<Rightarrow>
                  (case Begin c1 of
                     (tx_err, tx) \<Rightarrow>
                       if tx_err
                       then (Inl (InternalServerError ''Failed to start transaction''),
                             fst c1, snd tx)
                       else
                         or_rollback (Delete_capabilities serviceID tx)
                           ''Failed to delete capabilities'' (fst c1) (\<lambda>tx1.
                         or_rollback (Delete_categories serviceID tx1)
                           ''Failed to delete categories'' (fst c1) (\<lambda>tx2.
                         or_rollback (Delete_metadata serviceID tx2)
                           ''Failed to delete metadata'' (fst c1) (\<lambda>tx3.
                         or_rollback (Delete_service service tx3)
                           ''Failed to delete service'' (fst c1) (\<lambda>tx4.
                         (case Commit (fst c1) tx4 of
                            (commit_err, c5) \<Rightarrow>
                              if commit_err
                              then (Inl (InternalServerError
                                      ''Failed to commit transaction''), c5)
                              else (Inr ''Service unregistered'', c5))))))))))"

subsection \<open>Heartbeat\<close>

text \<open>
  \<open>HeartbeatHandler\<close>, the same in both revisions; \<open>now\<close> is its \<open>time.Now()\<close>. The result
  of \<open>Save\<close> is not looked at.
\<close>

definition HeartbeatHandler :: "string \<Rightarrow> time \<Rightarrow> conn \<Rightarrow> (error + string) \<times> conn" where
  "HeartbeatHandler serviceID now c =
     (if serviceID = [] then (Inl (BadRequest ''Invalid service ID''), c)
      else
        (case First_service serviceID c of
           (result, c1) \<Rightarrow>
             (case result of
                None \<Rightarrow> (Inl (NotFound ''Service not found''), c1)
              | Some service \<Rightarrow>
                  (Inr ''Heartbeat received'',
                   snd (Save_service (service\<lparr>LastSeen := now\<rparr>) c1)))))"


subsection \<open>Search\<close>

text \<open>
  PostgreSQL's \<open>LIKE\<close>, pattern first: \<open>%\<close> matches any run of characters, \<open>_\<close> any one
  character, and a backslash (the default escape character, \<open>CHR 0x5C\<close>) makes the character
  after it stand for itself. A pattern that ends in a lone backslash is rejected by
  PostgreSQL; the handlers always end their pattern with \<open>%\<close>, and such a pattern matches
  nothing here. \<open>ILIKE\<close> is \<open>LIKE\<close> without regard to the case of letters; strings are
  taken to be ASCII.
\<close>

fun like :: "string \<Rightarrow> string \<Rightarrow> bool" where
  "like [] s = (s = [])"
| "like (p # ps) s =
     (if p = CHR ''%'' then
        (like ps s \<or> (case s of [] \<Rightarrow> False | x # t \<Rightarrow> like (p # ps) t))
      else if p = CHR 0x5C then
        (case ps of
           [] \<Rightarrow> False
         | q # qs \<Rightarrow> (case s of [] \<Rightarrow> False | x # t \<Rightarrow> x = q \<and> like qs t))
      else if p = CHR ''_'' then
        (case s of [] \<Rightarrow> False | x # t \<Rightarrow> like ps t)
      else
        (case s of [] \<Rightarrow> False | x # t \<Rightarrow> x = p \<and> like ps t))"

definition to_lower :: "char \<Rightarrow> char" where
  "to_lower c =
     (let n = of_char c :: nat in if 65 \<le> n \<and> n \<le> 90 then char_of (n + 32) else c)"

definition ilike :: "string \<Rightarrow> string \<Rightarrow> bool" where
  "ilike pattern s = like (map to_lower pattern) (map to_lower s)"

text \<open>
  \<open>DB.Preload(...).Where("name ILIKE ? OR description ILIKE ?", p, p).Find(&services)\<close>;
  \<open>None\<close> stands for a non-nil \<open>Error\<close>.
\<close>

definition Find_ilike :: "string \<Rightarrow> conn \<Rightarrow> MCPService list option \<times> conn" where
  "Find_ilike pattern c =
     (case c of (db, fs) \<Rightarrow>
        if fails fs then (None, db, tl fs)
        else (Some (map (preload db)
                      (filter (\<lambda>x. ilike pattern (Name x) \<or> ilike pattern (Description x))
                         (mcp_services db))),
              db, tl fs))"

text \<open>
  \<open>SearchServicesHandler\<close> of \<open>handlers.go\<close>; \<open>query\<close> is the URL parameter \<open>q\<close>. The
  result of \<open>Find\<close> is not looked at, and a failed \<open>Find\<close> leaves \<open>services\<close> nil.
\<close>

definition SearchServicesHandler ::
  "string \<Rightarrow> conn \<Rightarrow> (error + ServiceResponse list) \<times> conn" where
  "SearchServicesHandler query c =
     (if query = [] then (Inl (BadRequest ''Query parameter 'q' is required''), c)
      else
        (case Find_ilike (''%'' @ query @ ''%'') c of
           (services, c1) \<Rightarrow> (Inr (map ServiceModelToResponse (entries services)), c1)))"

text \<open>\<open>SearchServicesHandler\<close> of \<open>part_001\<close>.\<close>

definition SearchServicesHandler_part_001 ::
  "string \<Rightarrow> conn \<Rightarrow> (error + ServiceResponse list) \<times> conn" where
  "SearchServicesHandler_part_001 query c =
     (if query = [] then (Inl (BadRequest ''Query parameter 'q' is required''), c)
      else
        (case Find_ilike (''%'' @ query @ ''%'') c of
           (result, c1) \<Rightarrow>
             (case result of
                None \<Rightarrow> (Inl (InternalServerError ''Error searching for services''), c1)
              | Some services \<Rightarrow> (Inr (map ServiceModelToResponse services), c1))))"

subsection \<open>List\<close>

text \<open>
  \<open>DB.Model(&Category{}).Where("name = ?", category).Pluck("service_id", &serviceIDs)\<close>, and
  \<open>query.Find(&services)\<close> with the optional restriction \<open>Where("id IN ?", serviceIDs)\<close>.
\<close>

definition Pluck_service_ids :: "string \<Rightarrow> conn \<Rightarrow> string list option \<times> conn" where
  "Pluck_service_ids category c =
     (case c of (db, fs) \<Rightarrow>
        if fails fs then (None, db, tl fs)
        else (Some (map cat_ServiceID (filter (\<lambda>x. cat_Name x = category) (categories db))),
              db, tl fs))"

definition Find_services :: "string list option \<Rightarrow> conn \<Rightarrow> MCPService list option \<times> conn" where
  "Find_services restriction c =
     (case c of (db, fs) \<Rightarrow>
        if fails fs then (None, db, tl fs)
        else (Some (map (preload db)
                      (filter (\<lambda>x. case restriction of None \<Rightarrow> True | Some ids \<Rightarrow> ID x \<in> set ids)
                         (mcp_services db))),
              db, tl fs))"

text \<open>\<open>ListServicesHandler\<close> of \<open>handlers.go\<close>; \<open>category\<close> is the URL parameter.\<close>

definition ListServicesHandler ::
  "string \<Rightarrow> conn \<Rightarrow> (error + ServiceResponse list) \<times> conn" where
  "ListServicesHandler category c =
     (if category \<noteq> [] then
        (case Pluck_service_ids category c of
           (serviceIDs, c1) \<Rightarrow>
             if length (entries serviceIDs) > 0 then
               (case Find_services (Some (entries serviceIDs)) c1 of
                  (services, c2) \<Rightarrow> (Inr (map ServiceModelToResponse (entries services)), c2))
             else (Inr [], c1))
      else
        (case Find_services None c of
           (services, c1) \<Rightarrow> (Inr (map ServiceModelToResponse (entries services)), c1)))"

text \<open>\<open>ListServicesHandler\<close> of \<open>part_001\<close>.\<close>

definition list_result ::
  "MCPService list option \<times> conn \<Rightarrow> (error + ServiceResponse list) \<times> conn" where
  "list_result r =
     (case r of (result, c) \<Rightarrow>
        (case result of
           None \<Rightarrow> (Inl (InternalServerError ''Error finding services''), c)
         | Some services \<Rightarrow> (Inr (map ServiceModelToResponse services), c)))"

definition ListServicesHandler_part_001 ::
  "string \<Rightarrow> conn \<Rightarrow> (error + ServiceResponse list) \<times> conn" where
  "ListServicesHandler_part_001 category c =
     (if category \<noteq> [] then
        (case Pluck_service_ids category c of
           (serviceIDs, c1) \<Rightarrow>
             if length (entries serviceIDs) > 0 then
               list_result (Find_services (Some (entries serviceIDs)) c1)
             else (Inr [], c1))
      else list_result (Find_services None c))"

section \<open>The pruning loop of \<open>main\<close>\<close>

text \<open>
  \<open>db.Where("last_seen < ?", cutoff).Find(&inactiveServices)\<close>.
\<close>

definition Find_inactive :: "time \<Rightarrow> conn \<Rightarrow> MCPService list option \<times> conn" where
  "Find_inactive cutoff c =
     (case c of (db, fs) \<Rightarrow>
        if fails fs then (None, db, tl fs)
        else (Some (filter (\<lambda>x. LastSeen x < cutoff) (mcp_services db)), db, tl fs))"

text \<open>
  The \<open>for _, service := range inactiveServices\<close> loop: four statements for each service,
  on the plain handle, none of whose results is looked at.
\<close>

fun prune_services :: "MCPService list \<Rightarrow> conn \<Rightarrow> conn" where
  "prune_services [] c = c"
| "prune_services (service # rest) c =
     (let c1 = snd (Delete_capabilities (ID service) c);
          c2 = snd (Delete_categories (ID service) c1);
          c3 = snd (Delete_metadata (ID service) c2);
          c4 = snd (Delete_service service c3)
      in prune_services rest c4)"

text \<open>
  One turn of the endless \<open>for\<close> loop of the goroutine, after its \<open>time.Sleep\<close>: \<open>now\<close> is
  the reading of \<open>time.Now()\<close>, and the age threshold is the constant written in the loop,
  \<open>1 * time.Hour\<close> in \<open>part_002\<close> and \<open>5 * time.Minute\<close> in \<open>part_003\<close>. A failed
  \<open>Find\<close> leaves \<open>inactiveServices\<close> nil.
\<close>

definition prune_cycle :: "int \<Rightarrow> time \<Rightarrow> conn \<Rightarrow> conn" where
  "prune_cycle threshold now c =
     (let cutoff = now + (- threshold)
      in case Find_inactive cutoff c of
           (inactiveServices, c1) \<Rightarrow> prune_services (entries inactiveServices) c1)"

definition prune_cycle_part_002 :: "time \<Rightarrow> conn \<Rightarrow> conn" where
  "prune_cycle_part_002 now c = prune_cycle (1 * Hour) now c"

definition prune_cycle_part_003 :: "time \<Rightarrow> conn \<Rightarrow> conn" where
  "prune_cycle_part_003 now c = prune_cycle (5 * Minute) now c"


section \<open>Notions used to state the properties\<close>

text \<open>The three kinds of failure of the specification, read off the status of the answer.\<close>

definition ValidationError :: "error + 'a \<Rightarrow> bool" where
  "ValidationError r = (case r of Inl (BadRequest m) \<Rightarrow> True | _ \<Rightarrow> False)"

definition NotFoundError :: "error + 'a \<Rightarrow> bool" where
  "NotFoundError r = (case r of Inl (NotFound m) \<Rightarrow> True | _ \<Rightarrow> False)"

definition StoreError :: "error + 'a \<Rightarrow> bool" where
  "StoreError r = (case r of Inl (InternalServerError m) \<Rightarrow> True | _ \<Rightarrow> False)"

text \<open>The child rows that the insertion loops build for a request's collections.\<close>

definition capability_rows :: "string \<Rightarrow> (string \<times> bool) list \<Rightarrow> Capability list" where
  "capability_rows serviceID xs =
     map (\<lambda>(name, enabled).
            \<lparr>cap_ServiceID = serviceID, cap_Name = name, cap_Enabled = enabled\<rparr>) xs"

definition category_rows :: "string \<Rightarrow> string list \<Rightarrow> Category list" where
  "category_rows serviceID xs =
     map (\<lambda>name. \<lparr>cat_ServiceID = serviceID, cat_Name = name\<rparr>) xs"

definition metadata_rows :: "string \<Rightarrow> (string \<times> string) list \<Rightarrow> MetadataItem list" where
  "metadata_rows serviceID xs =
     map (\<lambda>(key, val). \<lparr>md_ServiceID = serviceID, md_Key = key, md_Value = val\<rparr>) xs"

text \<open>The rows of the three child tables that belong to a service.\<close>

definition capabilities_of :: "string \<Rightarrow> store \<Rightarrow> Capability list" where
  "capabilities_of sid db = filter (\<lambda>x. cap_ServiceID x = sid) (capabilities db)"

definition categories_of :: "string \<Rightarrow> store \<Rightarrow> Category list" where
  "categories_of sid db = filter (\<lambda>x. cat_ServiceID x = sid) (categories db)"

definition metadata_of :: "string \<Rightarrow> store \<Rightarrow> MetadataItem list" where
  "metadata_of sid db = filter (\<lambda>x. md_ServiceID x = sid) (metadata_items db)"

text \<open>
  What \<open>uuid.New()\<close> is relied on for: the new identifier occurs in no row of the store.
\<close>

definition fresh_id :: "string \<Rightarrow> store \<Rightarrow> bool" where
  "fresh_id sid db =
     (sid \<notin> set (map ID (mcp_services db)) \<and>
      sid \<notin> set (map cap_ServiceID (capabilities db)) \<and>
      sid \<notin> set (map cat_ServiceID (categories db)) \<and>
      sid \<notin> set (map md_ServiceID (metadata_items db)))"

text \<open>The row of \<open>mcp_services\<close> with a given identifier, if there is one.\<close>

definition lookup :: "string \<Rightarrow> store \<Rightarrow> MCPService option" where
  "lookup sid db = find (\<lambda>x. ID x = sid) (mcp_services db)"

text \<open>
  The specification's reading of a search: the text occurs somewhere in the field, letters
  compared without regard to case.
\<close>

definition contains_ci :: "string \<Rightarrow> string \<Rightarrow> bool" where
  "contains_ci text field = sublist (map to_lower text) (map to_lower field)"

definition like_special :: "char \<Rightarrow> bool" where
  "like_special c = (c = CHR ''%'' \<or> c = CHR ''_'' \<or> c = CHR 0x5C)"

text \<open>
  What the schema guarantees of \<open>mcp_services\<close>: the primary key is unique, and a row
  carries no association slices.
\<close>

definition wf_store :: "store \<Rightarrow> bool" where
  "wf_store db =
     (distinct (map ID (mcp_services db)) \<and>
      (\<forall>x \<in> set (mcp_services db).
         Capabilities x = [] \<and> Categories x = [] \<and> Metadata x = []))"

text \<open>
  The contents of the store after a registration, an update, an unregistration and a
  heartbeat all of whose statements succeed.
\<close>

definition register_effect ::
  "ServiceRegistrationRequest \<Rightarrow> string \<Rightarrow> time \<Rightarrow> time \<Rightarrow> store \<Rightarrow> store" where
  "register_effect request sid now tc db =
     db\<lparr>mcp_services := mcp_services db @ [(new_service request sid now)\<lparr>CreatedAt := tc\<rparr>],
        capabilities := capabilities db @ capability_rows sid (entries (req_Capabilities request)),
        categories := categories db @ category_rows sid (entries (req_Categories request)),
        metadata_items :=
          metadata_items db @ metadata_rows sid (entries (req_Metadata request))\<rparr>"

definition update_effect ::
  "string \<Rightarrow> ServiceRegistrationRequest \<Rightarrow> time \<Rightarrow> store \<Rightarrow> store" where
  "update_effect sid request now db =
     db\<lparr>mcp_services :=
          map (\<lambda>x. if ID x = sid then updated_service x request now else x) (mcp_services db),
        capabilities :=
          filter (\<lambda>x. cap_ServiceID x \<noteq> sid) (capabilities db) @
          capability_rows sid (entries (req_Capabilities request)),
        categories :=
          filter (\<lambda>x. cat_ServiceID x \<noteq> sid) (categories db) @
          category_rows sid (entries (req_Categories request)),
        metadata_items :=
          filter (\<lambda>x. md_ServiceID x \<noteq> sid) (metadata_items db) @
          metadata_rows sid (entries (req_Metadata request))\<rparr>"

definition unregister_effect :: "string \<Rightarrow> store \<Rightarrow> store" where
  "unregister_effect sid db =
     db\<lparr>mcp_services := filter (\<lambda>x. ID x \<noteq> sid) (mcp_services db),
        capabilities := filter (\<lambda>x. cap_ServiceID x \<noteq> sid) (capabilities db),
        categories := filter (\<lambda>x. cat_ServiceID x \<noteq> sid) (categories db),
        metadata_items := filter (\<lambda>x. md_ServiceID x \<noteq> sid) (metadata_items db)\<rparr>"

definition heartbeat_effect :: "string \<Rightarrow> time \<Rightarrow> store \<Rightarrow> store" where
  "heartbeat_effect sid now db =
     db\<lparr>mcp_services :=
          map (\<lambda>x. if ID x = sid then x\<lparr>LastSeen := now\<rparr> else x) (mcp_services db)\<rparr>"

text \<open>The number of child rows a request asks for.\<close>

definition inserts :: "ServiceRegistrationRequest \<Rightarrow> nat" where
  "inserts r = length (entries (req_Capabilities r)) + length (entries (req_Categories r)) +
     length (entries (req_Metadata r))"

text \<open>One of the next \<open>n\<close> statements fails.\<close>

definition faulty :: "nat \<Rightarrow> faults \<Rightarrow> bool" where
  "faulty n fs = (True \<in> set (take n fs))"

text \<open>
  The collections of an answer are those of a request: the capabilities and metadata
  mappings are the request's, an absent field read as the empty mapping, and the categories
  are the request's list.
\<close>

definition same_collections :: "ServiceRegistrationRequest \<Rightarrow> ServiceResponse \<Rightarrow> bool" where
  "same_collections request response =
     (resp_Capabilities response = map_of (entries (req_Capabilities request)) \<and>
      resp_Categories response = entries (req_Categories request) \<and>
      resp_Metadata response = map_of (entries (req_Metadata request)))"

text \<open>
  The child rows of a service are exactly the rows of a request, and its row carries the
  name, description and url of a request.
\<close>

definition replaced_by :: "string \<Rightarrow> ServiceRegistrationRequest \<Rightarrow> store \<Rightarrow> bool" where
  "replaced_by sid request db =
     (capabilities_of sid db = capability_rows sid (entries (req_Capabilities request)) \<and>
      categories_of sid db = category_rows sid (entries (req_Categories request)) \<and>
      metadata_of sid db = metadata_rows sid (entries (req_Metadata request)))"

definition overwritten_by :: "string \<Rightarrow> ServiceRegistrationRequest \<Rightarrow> store \<Rightarrow> bool" where
  "overwritten_by sid request db =
     (case lookup sid db of
        None \<Rightarrow> False
      | Some x \<Rightarrow>
          Name x = req_Name request \<and> Description x = req_Description request \<and>
          URL x = req_URL request)"

text \<open>
  An answer is the stored service read back: the row with the identifier, loaded with its
  child rows and converted by \<open>ServiceModelToResponse\<close>.
\<close>

definition read_back :: "string \<Rightarrow> store \<Rightarrow> ServiceResponse \<Rightarrow> bool" where
  "read_back sid db resp =
     (case lookup sid db of
        None \<Rightarrow> False
      | Some s \<Rightarrow> resp = ServiceModelToResponse (preload db s))"

text \<open>
  What a registration leaves behind: one new row of \<open>mcp_services\<close>, the one found under
  the identifier, after the rows that were there; the child rows of the request after the
  rows that were there, and no other child row of the service; the row carries the name,
  description and url of the request; and the answer is that service read back, with the
  collections of the request.
\<close>

definition registered ::
  "ServiceRegistrationRequest \<Rightarrow> string \<Rightarrow> store \<Rightarrow> store \<Rightarrow> ServiceResponse \<Rightarrow> bool" where
  "registered request sid db db' resp =
     (mcp_services db' = mcp_services db @ (case lookup sid db' of None \<Rightarrow> [] | Some s \<Rightarrow> [s]) \<and>
      capabilities db' =
        capabilities db @ capability_rows sid (entries (req_Capabilities request)) \<and>
      categories db' = categories db @ category_rows sid (entries (req_Categories request)) \<and>
      metadata_items db' =
        metadata_items db @ metadata_rows sid (entries (req_Metadata request)) \<and>
      overwritten_by sid request db' \<and> replaced_by sid request db' \<and>
      read_back sid db' resp \<and> same_collections request resp)"

text \<open>
  Two stores have the same child tables; two answers have the same collections.
\<close>

definition same_children :: "store \<Rightarrow> store \<Rightarrow> bool" where
  "same_children db1 db2 =
     (capabilities db1 = capabilities db2 \<and> categories db1 = categories db2 \<and>
      metadata_items db1 = metadata_items db2)"



text \<open>
  A 2xx answer; and the identifiers of the services that a search or a listing returned.
\<close>

definition succeeded :: "error + 'a \<Rightarrow> bool" where
  "succeeded answer = (case answer of Inl e \<Rightarrow> False | Inr x \<Rightarrow> True)"

definition found :: "error + ServiceResponse list \<Rightarrow> string list" where
  "found answer = (case answer of Inl e \<Rightarrow> [] | Inr services \<Rightarrow> map resp_ID services)"

text \<open>
  A service is stale for a threshold at a time when its \<open>last_seen\<close> is older than the time
  minus the threshold; and the store without the services of some identifiers and without
  their child rows.
\<close>

definition stale :: "int \<Rightarrow> time \<Rightarrow> MCPService \<Rightarrow> bool" where
  "stale threshold now x = (LastSeen x < now - threshold)"

definition without :: "string list \<Rightarrow> store \<Rightarrow> store" where
  "without ids db =
     db\<lparr>mcp_services := filter (\<lambda>x. ID x \<notin> set ids) (mcp_services db),
        capabilities := filter (\<lambda>x. cap_ServiceID x \<notin> set ids) (capabilities db),
        categories := filter (\<lambda>x. cat_ServiceID x \<notin> set ids) (categories db),
        metadata_items := filter (\<lambda>x. md_ServiceID x \<notin> set ids) (metadata_items db)\<rparr>"

subsection \<open>Sample values\<close>

text \<open>
  An empty store; a store with one service and one row in each child table; a store with
  three services for searching; a request with every field, one with empty collections and no
  metadata, and one with nothing at all.
\<close>

definition empty_store :: store where
  "empty_store = \<lparr>mcp_services = [], capabilities = [], categories = [], metadata_items = []\<rparr>"

definition sample_store :: store where
  "sample_store =
     \<lparr>mcp_services =
        [\<lparr>ID = ''id-1'', Name = ''Mapping Service'', Description = ''provides geo-mapping'',
          URL = ''http://maps.example'', Capabilities = [], Categories = [], CreatedAt = 100,
          LastSeen = 100, Metadata = [], ApiDocs = []\<rparr>],
      capabilities = [\<lparr>cap_ServiceID = ''id-1'', cap_Name = ''tiles'', cap_Enabled = True\<rparr>],
      categories = [\<lparr>cat_ServiceID = ''id-1'', cat_Name = ''search''\<rparr>],
      metadata_items = [\<lparr>md_ServiceID = ''id-1'', md_Key = ''region'', md_Value = ''eu''\<rparr>]\<rparr>"

definition search_store :: store where
  "search_store =
     \<lparr>mcp_services =
        [\<lparr>ID = ''id-1'', Name = ''Mapping Service'', Description = [],
          URL = ''http://maps.example'', Capabilities = [], Categories = [], CreatedAt = 100,
          LastSeen = 100, Metadata = [], ApiDocs = []\<rparr>,
         \<lparr>ID = ''id-2'', Name = ''Atlas'', Description = ''provides geo-mapping'',
          URL = ''http://atlas.example'', Capabilities = [], Categories = [], CreatedAt = 100,
          LastSeen = 100, Metadata = [], ApiDocs = []\<rparr>,
         \<lparr>ID = ''id-3'', Name = ''Weather'', Description = ''forecasts'',
          URL = ''http://weather.example'', Capabilities = [], Categories = [], CreatedAt = 100,
          LastSeen = 100, Metadata = [], ApiDocs = []\<rparr>],
      capabilities = [], categories = [], metadata_items = []\<rparr>"

definition sample_request :: ServiceRegistrationRequest where
  "sample_request =
     \<lparr>req_Name = ''Mapping Service'', req_Description = ''provides geo-mapping'',
      req_URL = ''http://maps.example'',
      req_Capabilities = Some [(''tiles'', True), (''routing'', False)],
      req_Categories = Some [''search''],
      req_Metadata = Some [(''region'', ''eu'')],
      req_ApiDocs = []\<rparr>"

definition minimal_request :: ServiceRegistrationRequest where
  "minimal_request =
     \<lparr>req_Name = ''geo'', req_Description = [], req_URL = ''http://geo.example'',
      req_Capabilities = Some [], req_Categories = Some [], req_Metadata = None,
      req_ApiDocs = []\<rparr>"

definition blank_request :: ServiceRegistrationRequest where
  "blank_request =
     \<lparr>req_Name = [], req_Description = [], req_URL = [], req_Capabilities = None,
      req_Categories = None, req_Metadata = None, req_ApiDocs = []\<rparr>"

section \<open>Basic facts\<close>

subsection \<open>Store operations\<close>

lemma fails_simps: "fails [] = False" "fails (b # fs) = b"
  by (simp_all add: fails_def)

lemma fault_in_take_Suc:
  "(True \<in> set (take (Suc n) fs)) = (fails fs \<or> True \<in> set (take n (tl fs)))"
  by (cases fs) (auto simp: fails_simps)

lemma Create_service_eq:
  "Create_service s tc (db, fs) =
     (fails fs \<or> ID s \<in> set (map ID (mcp_services db)),
      if fails fs \<or> ID s \<in> set (map ID (mcp_services db)) then db
      else db\<lparr>mcp_services := mcp_services db @
             [row_of (s\<lparr>CreatedAt := (if CreatedAt s = 0 then tc else CreatedAt s)\<rparr>)]\<rparr>,
      tl fs)"
  by (simp add: Create_service_def)

lemma Create_capability_eq:
  "Create_capability x (db, fs) =
     (fails fs, if fails fs then db else db\<lparr>capabilities := capabilities db @ [x]\<rparr>, tl fs)"
  by (simp add: Create_capability_def)

lemma Create_category_eq:
  "Create_category x (db, fs) =
     (fails fs, if fails fs then db else db\<lparr>categories := categories db @ [x]\<rparr>, tl fs)"
  by (simp add: Create_category_def)

lemma Create_metadata_eq:
  "Create_metadata x (db, fs) =
     (fails fs, if fails fs then db else db\<lparr>metadata_items := metadata_items db @ [x]\<rparr>, tl fs)"
  by (simp add: Create_metadata_def)

lemma Delete_capabilities_eq:
  "Delete_capabilities sid (db, fs) =
     (fails fs,
      if fails fs then db
      else db\<lparr>capabilities := filter (\<lambda>x. cap_ServiceID x \<noteq> sid) (capabilities db)\<rparr>,
      tl fs)"
  by (simp add: Delete_capabilities_def)

lemma Delete_categories_eq:
  "Delete_categories sid (db, fs) =
     (fails fs,
      if fails fs then db
      else db\<lparr>categories := filter (\<lambda>x. cat_ServiceID x \<noteq> sid) (categories db)\<rparr>,
      tl fs)"
  by (simp add: Delete_categories_def)

lemma Delete_metadata_eq:
  "Delete_metadata sid (db, fs) =
     (fails fs,
      if fails fs then db
      else db\<lparr>metadata_items := filter (\<lambda>x. md_ServiceID x \<noteq> sid) (metadata_items db)\<rparr>,
      tl fs)"
  by (simp add: Delete_metadata_def)

lemma Delete_service_eq:
  "Delete_service s (db, fs) =
     (fails fs \<or> referenced (ID s) db,
      if fails fs \<or> referenced (ID s) db then db
      else db\<lparr>mcp_services := filter (\<lambda>x. ID x \<noteq> ID s) (mcp_services db)\<rparr>,
      tl fs)"
  by (simp add: Delete_service_def)

text \<open>Once the three deletions of its child rows have succeeded, nothing refers to a service.\<close>

lemma not_referenced_after_deletes:
  "\<not> referenced sid
      (db\<lparr>capabilities := filter (\<lambda>x. cap_ServiceID x \<noteq> sid) (capabilities db),
          categories := filter (\<lambda>x. cat_ServiceID x \<noteq> sid) (categories db),
          metadata_items := filter (\<lambda>x. md_ServiceID x \<noteq> sid) (metadata_items db)\<rparr>)"
  by (auto simp: referenced_def)

lemma First_service_eq:
  "First_service sid (db, fs) = (if fails fs then None else lookup sid db, db, tl fs)"
  by (simp add: First_service_def lookup_def)

lemma First_preload_eq:
  "First_preload sid (db, fs) =
     (if fails fs then None else map_option (preload db) (lookup sid db), db, tl fs)"
  by (simp add: First_preload_def lookup_def)

lemma Begin_eq: "Begin (db, fs) = (fails fs, db, tl fs)"
  by (simp add: Begin_def)

lemma Commit_eq:
  "Commit committed (db, fs) = (fails fs, if fails fs then committed else db, tl fs)"
  by (simp add: Commit_def)

lemma lookup_Some: "lookup sid db = Some s \<Longrightarrow> s \<in> set (mcp_services db) \<and> ID s = sid"
  unfolding lookup_def by (auto simp: find_Some_iff)

lemma lookup_None: "(lookup sid db = None) = (sid \<notin> set (map ID (mcp_services db)))"
  unfolding lookup_def by (auto simp: find_None_iff)

lemma unique_row:
  "distinct (map ID xs) \<Longrightarrow> s \<in> set xs \<Longrightarrow> x \<in> set xs \<Longrightarrow> ID x = ID s \<Longrightarrow> x = s"
  by (auto simp: distinct_map inj_on_def)

text \<open>
  Saving a changed copy of the row that was read: the one row with that key is replaced,
  provided the change keeps the key and the (nil) association slices.
\<close>

lemma Save_found:
  assumes wf: "wf_store db" and s: "lookup sid db = Some s"
    and g: "\<And>x. ID (g x) = ID x \<and> Capabilities (g x) = Capabilities x \<and>
               Categories (g x) = Categories x \<and> Metadata (g x) = Metadata x"
  shows "Save_service (g s) (db, fs) =
           (fails fs,
            if fails fs then db
            else db\<lparr>mcp_services := map (\<lambda>x. if ID x = sid then g x else x) (mcp_services db)\<rparr>,
            tl fs)"
proof -
  from lookup_Some [OF s] have mem: "s \<in> set (mcp_services db)" and id: "ID s = sid"
    by simp_all
  from wf mem have r: "row_of (g s) = g s"
    by (simp add: wf_store_def row_of_def g)
  have m: "map (\<lambda>x. if ID x = sid then g s else x) (mcp_services db) =
                 map (\<lambda>x. if ID x = sid then g x else x) (mcp_services db)"
  proof (rule map_cong [OF refl])
    fix x assume "x \<in> set (mcp_services db)"
    with wf mem id unique_row [of "mcp_services db" s x] have "ID x = sid \<Longrightarrow> x = s"
      by (simp add: wf_store_def)
    then show "(if ID x = sid then g s else x) = (if ID x = sid then g x else x)" by auto
  qed
  from mem id have "sid \<in> set (map ID (mcp_services db))" by auto
  then show ?thesis
    by (simp add: Save_service_def g id r m cong: if_cong)
qed

subsection \<open>Insertion loops\<close>

lemma add_capabilities_ok:
  "add_capabilities sid xs (db, []) =
     (db\<lparr>capabilities := capabilities db @ capability_rows sid xs\<rparr>, [])"
  by (induction xs arbitrary: db)
     (auto simp: Create_capability_eq fails_simps capability_rows_def)

lemma add_categories_ok:
  "add_categories sid xs (db, []) =
     (db\<lparr>categories := categories db @ category_rows sid xs\<rparr>, [])"
  by (induction xs arbitrary: db)
     (auto simp: Create_category_eq fails_simps category_rows_def)

lemma add_metadata_ok:
  "add_metadata sid xs (db, []) =
     (db\<lparr>metadata_items := metadata_items db @ metadata_rows sid xs\<rparr>, [])"
  by (induction xs arbitrary: db)
     (auto simp: Create_metadata_eq fails_simps metadata_rows_def)

lemma add_capabilities_tx_err:
  "fst (add_capabilities_tx sid xs (db, fs)) = (True \<in> set (take (length xs) fs))"
proof (induction xs arbitrary: db fs)
  case Nil
  show ?case by simp
next
  case (Cons x xs)
  then show ?case
    by (cases x) (simp add: Create_capability_eq fault_in_take_Suc)
qed

lemma add_capabilities_tx_ok:
  "True \<notin> set (take (length xs) fs) \<Longrightarrow>
   add_capabilities_tx sid xs (db, fs) =
     (False, db\<lparr>capabilities := capabilities db @ capability_rows sid xs\<rparr>, drop (length xs) fs)"
proof (induction xs arbitrary: db fs)
  case Nil
  show ?case by (simp add: capability_rows_def)
next
  case (Cons x xs)
  then show ?case
    by (cases x) (simp add: Create_capability_eq fault_in_take_Suc capability_rows_def drop_Suc)
qed

lemma add_categories_tx_err:
  "fst (add_categories_tx sid xs (db, fs)) = (True \<in> set (take (length xs) fs))"
  by (induction xs arbitrary: db fs)
     (simp_all add: Create_category_eq fault_in_take_Suc)

lemma add_categories_tx_ok:
  "True \<notin> set (take (length xs) fs) \<Longrightarrow>
   add_categories_tx sid xs (db, fs) =
     (False, db\<lparr>categories := categories db @ category_rows sid xs\<rparr>, drop (length xs) fs)"
  by (induction xs arbitrary: db fs)
     (simp_all add: Create_category_eq fault_in_take_Suc category_rows_def drop_Suc)

lemma add_metadata_tx_err:
  "fst (add_metadata_tx sid xs (db, fs)) = (True \<in> set (take (length xs) fs))"
proof (induction xs arbitrary: db fs)
  case Nil
  show ?case by simp
next
  case (Cons x xs)
  then show ?case
    by (cases x) (simp add: Create_metadata_eq fault_in_take_Suc)
qed

lemma add_metadata_tx_ok:
  "True \<notin> set (take (length xs) fs) \<Longrightarrow>
   add_metadata_tx sid xs (db, fs) =
     (False, db\<lparr>metadata_items := metadata_items db @ metadata_rows sid xs\<rparr>,
      drop (length xs) fs)"
proof (induction xs arbitrary: db fs)
  case Nil
  show ?case by (simp add: metadata_rows_def)
next
  case (Cons x xs)
  then show ?case
    by (cases x) (simp add: Create_metadata_eq fault_in_take_Suc metadata_rows_def drop_Suc)
qed

text \<open>A step of a transaction, by cases on its error.\<close>

lemma or_rollback_eq:
  "or_rollback r msg committed k =
     (if fst r then (Inl (InternalServerError msg), committed, snd (snd r)) else k (snd r))"
  by (simp add: or_rollback_def Rollback_def split_beta)

lemma StoreError_simps:
  "StoreError (Inl (InternalServerError m))" "\<not> StoreError (Inr x)"
  "\<not> StoreError (Inl (BadRequest m))" "\<not> StoreError (Inl (NotFound m))"
  by (simp_all add: StoreError_def)

subsection \<open>Fault schedules\<close>

lemma faulty_0: "faulty 0 fs = False"
  by (simp add: faulty_def)

lemma faulty_Suc: "faulty (Suc n) fs = (fails fs \<or> faulty n (tl fs))"
  by (simp add: faulty_def fault_in_take_Suc)

lemma faulty_add: "faulty (a + b) fs = (faulty a fs \<or> faulty b (drop a fs))"
  by (auto simp add: faulty_def take_add)

lemma faulty_Nil: "faulty n [] = False"
  by (simp add: faulty_def)

subsection \<open>The handlers, by cases\<close>

lemma row_of_new_service:
  "row_of ((new_service r sid now)\<lparr>CreatedAt := tc\<rparr>) = (new_service r sid now)\<lparr>CreatedAt := tc\<rparr>"
  by (simp add: row_of_def new_service_def)

lemma lookup_append_new:
  "sid \<notin> set (map ID xs) \<Longrightarrow> ID s = sid \<Longrightarrow> find (\<lambda>x. ID x = sid) (xs @ [s]) = Some s"
  by (induction xs) auto

lemma lookup_register_effect:
  "sid \<notin> set (map ID (mcp_services db)) \<Longrightarrow>
   lookup sid (register_effect r sid now tc db) = Some ((new_service r sid now)\<lparr>CreatedAt := tc\<rparr>)"
  by (simp add: lookup_def register_effect_def lookup_append_new new_service_def)

text \<open>The answer and the committed store of a registration in \<open>part_001\<close>, by cases on the
  first statement that fails.\<close>

lemma Create_part_001_cases:
  fixes r sid now tc db fs
  defines "n1 \<equiv> length (entries (req_Capabilities r))"
    and "n2 \<equiv> length (entries (req_Categories r))"
    and "n3 \<equiv> length (entries (req_Metadata r))"
  defines "R \<equiv> CreateServiceHandler_part_001 (Inr r) sid now tc (db, fs)"
  assumes valid: "\<not> missing_required r"
  shows "(fst R, fst (snd R)) =
     (if fails fs then (Inl (InternalServerError ''Failed to start transaction''), db)
      else if fails (tl fs) \<or> sid \<in> set (map ID (mcp_services db))
      then (Inl (InternalServerError ''Failed to register service''), db)
      else if faulty n1 (tl (tl fs))
      then (Inl (InternalServerError ''Failed to add capability''), db)
      else if faulty n2 (drop n1 (tl (tl fs)))
      then (Inl (InternalServerError ''Failed to add category''), db)
      else if faulty n3 (drop n2 (drop n1 (tl (tl fs))))
      then (Inl (InternalServerError ''Failed to add metadata''), db)
      else if fails (drop n3 (drop n2 (drop n1 (tl (tl fs)))))
      then (Inl (InternalServerError ''Failed to commit transaction''), db)
      else if fails (tl (drop n3 (drop n2 (drop n1 (tl (tl fs))))))
      then (Inl (InternalServerError ''Service created but failed to retrieve details''),
            register_effect r sid now tc db)
      else (Inr (ServiceModelToResponse
                   (preload (register_effect r sid now tc db)
                      ((new_service r sid now)\<lparr>CreatedAt := tc\<rparr>))),
            register_effect r sid now tc db))"
  using valid unfolding R_def n1_def n2_def n3_def CreateServiceHandler_part_001_def
  by (simp add: Begin_eq or_rollback_eq Create_service_eq Commit_eq First_preload_eq
      add_capabilities_tx_err add_categories_tx_err add_metadata_tx_err
      add_capabilities_tx_ok add_categories_tx_ok add_metadata_tx_ok faulty_def
      new_service_def row_of_def register_effect_def lookup_def lookup_append_new
      del: drop_drop tl_drop)


lemma find_map_upd:
  assumes "\<And>x. ID (g x) = ID x"
  shows "find (\<lambda>x. ID x = sid) (map (\<lambda>x. if ID x = sid then g x else x) xs) =
         map_option g (find (\<lambda>x. ID x = sid) xs)"
  by (induction xs) (auto simp: assms)

lemma updated_service_keeps:
  "ID (updated_service x r now) = ID x \<and>
   Capabilities (updated_service x r now) = Capabilities x \<and>
   Categories (updated_service x r now) = Categories x \<and>
   Metadata (updated_service x r now) = Metadata x"
  by (simp add: updated_service_def)

lemma Save_updated:
  "wf_store db \<Longrightarrow> lookup sid db = Some s \<Longrightarrow>
   Save_service (updated_service s r now) (db, fs) =
     (fails fs,
      if fails fs then db
      else db\<lparr>mcp_services :=
             map (\<lambda>x. if ID x = sid then updated_service x r now else x) (mcp_services db)\<rparr>,
      tl fs)"
  by (rule Save_found [where g = "\<lambda>x. updated_service x r now"])
     (simp_all add: updated_service_keeps)

lemma lookup_update_effect:
  "lookup sid db = Some s \<Longrightarrow>
   lookup sid (update_effect sid r now db) = Some (updated_service s r now)"
  by (simp add: lookup_def update_effect_def find_map_upd updated_service_keeps)

lemma Update_part_001_cases:
  fixes r sid now db fs s
  defines "n1 \<equiv> length (entries (req_Capabilities r))"
    and "n2 \<equiv> length (entries (req_Categories r))"
    and "n3 \<equiv> length (entries (req_Metadata r))"
  defines "R \<equiv> UpdateServiceHandler_part_001 sid (Inr r) now (db, fs)"
  defines "f \<equiv> tl (tl (tl (tl fs)))"
  assumes wf: "wf_store db" and s: "lookup sid db = Some s" and sid: "sid \<noteq> []"
  shows "(fst R, fst (snd R)) =
     (if fails fs then (Inl (NotFound ''Service not found''), db)
      else if fails (tl fs)
      then (Inl (InternalServerError ''Failed to start transaction''), db)
      else if fails (tl (tl fs))
      then (Inl (InternalServerError ''Failed to update service''), db)
      else if fails (tl (tl (tl fs)))
      then (Inl (InternalServerError ''Failed to remove old capabilities''), db)
      else if faulty n1 f
      then (Inl (InternalServerError ''Failed to add capability''), db)
      else if fails (drop n1 f)
      then (Inl (InternalServerError ''Failed to remove old categories''), db)
      else if faulty n2 (tl (drop n1 f))
      then (Inl (InternalServerError ''Failed to add category''), db)
      else if fails (drop n2 (tl (drop n1 f)))
      then (Inl (InternalServerError ''Failed to remove old metadata''), db)
      else if faulty n3 (tl (drop n2 (tl (drop n1 f))))
      then (Inl (InternalServerError ''Failed to add metadata''), db)
      else if fails (drop n3 (tl (drop n2 (tl (drop n1 f)))))
      then (Inl (InternalServerError ''Failed to commit transaction''), db)
      else if fails (tl (drop n3 (tl (drop n2 (tl (drop n1 f))))))
      then (Inl (InternalServerError ''Service updated but failed to retrieve details''),
            update_effect sid r now db)
      else (Inr (ServiceModelToResponse
                   (preload (update_effect sid r now db) (updated_service s r now))),
            update_effect sid r now db))"
proof -
  have eff: "db\<lparr>mcp_services :=
          map (\<lambda>x. if ID x = sid then updated_service x r now else x) (mcp_services db),
        capabilities :=
          filter (\<lambda>x. cap_ServiceID x \<noteq> sid) (capabilities db) @
          capability_rows sid (entries (req_Capabilities r)),
        categories :=
          filter (\<lambda>x. cat_ServiceID x \<noteq> sid) (categories db) @
          category_rows sid (entries (req_Categories r)),
        metadata_items :=
          filter (\<lambda>x. md_ServiceID x \<noteq> sid) (metadata_items db) @
          metadata_rows sid (entries (req_Metadata r))\<rparr> = update_effect sid r now db"
    by (simp add: update_effect_def)
  show ?thesis
    using sid s unfolding R_def n1_def n2_def n3_def f_def UpdateServiceHandler_part_001_def
    by (simp add: Begin_eq or_rollback_eq First_service_eq Commit_eq First_preload_eq
        Save_updated [OF wf s]
        Delete_capabilities_eq Delete_categories_eq Delete_metadata_eq
        add_capabilities_tx_err add_categories_tx_err add_metadata_tx_err
        add_capabilities_tx_ok add_categories_tx_ok add_metadata_tx_ok faulty_def
        eff lookup_update_effect [OF s]
        del: drop_drop tl_drop)
qed

lemma Create_ok:
  assumes "\<not> missing_required r" and "sid \<notin> set (map ID (mcp_services db))"
  shows "CreateServiceHandler (Inr r) sid now tc (db, []) =
           (Inr (ServiceModelToResponse
                   (preload (register_effect r sid now tc db)
                      ((new_service r sid now)\<lparr>CreatedAt := tc\<rparr>))),
            register_effect r sid now tc db, [])"
  using assms unfolding CreateServiceHandler_def
  by (simp add: Create_service_eq fails_simps add_capabilities_ok add_categories_ok
      add_metadata_ok First_preload_eq new_service_def row_of_def register_effect_def
      lookup_def lookup_append_new)

lemma Update_ok:
  assumes wf: "wf_store db" and s: "lookup sid db = Some s" and sid: "sid \<noteq> []"
  shows "UpdateServiceHandler sid (Inr r) now (db, []) =
           (Inr (ServiceModelToResponse
                   (preload (update_effect sid r now db) (updated_service s r now))),
            update_effect sid r now db, [])"
proof -
  have eff: "db\<lparr>mcp_services :=
          map (\<lambda>x. if ID x = sid then updated_service x r now else x) (mcp_services db),
        capabilities :=
          filter (\<lambda>x. cap_ServiceID x \<noteq> sid) (capabilities db) @
          capability_rows sid (entries (req_Capabilities r)),
        categories :=
          filter (\<lambda>x. cat_ServiceID x \<noteq> sid) (categories db) @
          category_rows sid (entries (req_Categories r)),
        metadata_items :=
          filter (\<lambda>x. md_ServiceID x \<noteq> sid) (metadata_items db) @
          metadata_rows sid (entries (req_Metadata r))\<rparr> = update_effect sid r now db"
    by (simp add: update_effect_def)
  show ?thesis
    using sid s unfolding UpdateServiceHandler_def
    by (simp add: First_service_eq fails_simps Save_updated [OF wf s] Delete_capabilities_eq
        Delete_categories_eq Delete_metadata_eq add_capabilities_ok add_categories_ok
        add_metadata_ok First_preload_eq eff lookup_update_effect [OF s])
qed

lemma Create_part_001_ok:
  assumes "\<not> missing_required r" and "sid \<notin> set (map ID (mcp_services db))"
  shows "fst (CreateServiceHandler_part_001 (Inr r) sid now tc (db, [])) =
           Inr (ServiceModelToResponse
                   (preload (register_effect r sid now tc db)
                      ((new_service r sid now)\<lparr>CreatedAt := tc\<rparr>))) \<and>
         fst (snd (CreateServiceHandler_part_001 (Inr r) sid now tc (db, []))) =
           register_effect r sid now tc db"
  using Create_part_001_cases [OF assms(1), of sid now tc db "[]"] assms(2)
  by (simp add: fails_simps faulty_Nil)

lemma Update_part_001_ok:
  assumes wf: "wf_store db" and s: "lookup sid db = Some s" and sid: "sid \<noteq> []"
  shows "fst (UpdateServiceHandler_part_001 sid (Inr r) now (db, [])) =
           Inr (ServiceModelToResponse
                   (preload (update_effect sid r now db) (updated_service s r now))) \<and>
         fst (snd (UpdateServiceHandler_part_001 sid (Inr r) now (db, []))) =
           update_effect sid r now db"
  using Update_part_001_cases [OF assms, of r now "[]"]
  by (simp add: fails_simps faulty_Nil)

text \<open>A 201 answer of the transactional registration means that everything was committed.\<close>

lemma Create_part_001_Inr:
  assumes "\<not> missing_required r"
    and "fst (CreateServiceHandler_part_001 (Inr r) sid now tc (db, fs)) = Inr resp"
  shows "resp = ServiceModelToResponse
                   (preload (register_effect r sid now tc db)
                      ((new_service r sid now)\<lparr>CreatedAt := tc\<rparr>)) \<and>
         fst (snd (CreateServiceHandler_part_001 (Inr r) sid now tc (db, fs))) =
           register_effect r sid now tc db \<and> sid \<notin> set (map ID (mcp_services db))"
  using Create_part_001_cases [OF assms(1), of sid now tc db fs] assms(2)
  by (auto split: if_splits)

lemma Update_part_001_Inr:
  assumes wf: "wf_store db" and s: "lookup sid db = Some s" and sid: "sid \<noteq> []"
    and "fst (UpdateServiceHandler_part_001 sid (Inr r) now (db, fs)) = Inr resp"
  shows "resp = ServiceModelToResponse
                   (preload (update_effect sid r now db) (updated_service s r now)) \<and>
         fst (snd (UpdateServiceHandler_part_001 sid (Inr r) now (db, fs))) =
           update_effect sid r now db"
  using Update_part_001_cases [OF wf s sid, of r now fs] assms(4)
  by (auto split: if_splits)

subsection \<open>Collections of a loaded service and of its response\<close>

lemma filter_capability_rows:
  "filter (\<lambda>x. cap_ServiceID x = sid) (capability_rows sid xs) = capability_rows sid xs"
  "filter (\<lambda>x. cap_ServiceID x \<noteq> sid) (capability_rows sid xs) = []"
  by (induction xs) (auto simp: capability_rows_def)

lemma filter_category_rows:
  "filter (\<lambda>x. cat_ServiceID x = sid) (category_rows sid xs) = category_rows sid xs"
  "filter (\<lambda>x. cat_ServiceID x \<noteq> sid) (category_rows sid xs) = []"
  by (induction xs) (auto simp: category_rows_def)

lemma filter_metadata_rows:
  "filter (\<lambda>x. md_ServiceID x = sid) (metadata_rows sid xs) = metadata_rows sid xs"
  "filter (\<lambda>x. md_ServiceID x \<noteq> sid) (metadata_rows sid xs) = []"
  by (induction xs) (auto simp: metadata_rows_def)

lemma filter_eq_neq: "filter P (filter (\<lambda>x. \<not> P x) xs) = []"
  by (induction xs) auto

lemma fold_upd_map_of:
  "distinct (map fst xs) \<Longrightarrow> fold (\<lambda>(k, v) m. m(k \<mapsto> v)) xs m0 = m0 ++ map_of xs"
proof (induction xs arbitrary: m0)
  case Nil
  show ?case by simp
next
  case (Cons x xs)
  obtain k v where x: "x = (k, v)" by (cases x)
  from Cons.prems x have none: "map_of xs k = None"
    by (simp add: map_of_eq_None_iff)
  have a: "m0(k \<mapsto> v) ++ map_of xs = (m0 ++ map_of xs)(k \<mapsto> v)"
    by (rule ext) (simp add: map_add_def none split: option.splits)
  have "fold (\<lambda>(k, v) m. m(k \<mapsto> v)) (x # xs) m0 = fold (\<lambda>(k, v) m. m(k \<mapsto> v)) xs (m0(k \<mapsto> v))"
    using x by simp
  also have "\<dots> = m0(k \<mapsto> v) ++ map_of xs"
    by (rule Cons.IH) (use Cons.prems in simp)
  also note a
  finally have c: "fold (\<lambda>(k, v) m. m(k \<mapsto> v)) (x # xs) m0 = (m0 ++ map_of xs)(k \<mapsto> v)" .
  have b: "m0 ++ map_of (x # xs) = (m0 ++ map_of xs)(k \<mapsto> v)"
    using x by simp
  show ?case unfolding b by (rule c)
qed

lemma fold_capability_rows:
  "fold (\<lambda>cap m. m(cap_Name cap \<mapsto> cap_Enabled cap)) (capability_rows sid xs) m0 =
   fold (\<lambda>(k, v) m. m(k \<mapsto> v)) xs m0"
  by (induction xs arbitrary: m0) (auto simp: capability_rows_def)

lemma fold_metadata_rows:
  "fold (\<lambda>item m. m(md_Key item \<mapsto> md_Value item)) (metadata_rows sid xs) m0 =
   fold (\<lambda>(k, v) m. m(k \<mapsto> v)) xs m0"
  by (induction xs arbitrary: m0) (auto simp: metadata_rows_def)

lemma map_cat_Name_rows: "map cat_Name (category_rows sid xs) = xs"
  by (induction xs) (auto simp: category_rows_def)

text \<open>The response built from a service whose child rows are exactly those of a request.\<close>

lemma response_of_rows:
  assumes "wf_request r"
    and "Capabilities s = capability_rows sid (entries (req_Capabilities r))"
    and "Categories s = category_rows sid (entries (req_Categories r))"
    and "Metadata s = metadata_rows sid (entries (req_Metadata r))"
  shows "resp_Capabilities (ServiceModelToResponse s) = map_of (entries (req_Capabilities r)) \<and>
         resp_Categories (ServiceModelToResponse s) = entries (req_Categories r) \<and>
         resp_Metadata (ServiceModelToResponse s) = map_of (entries (req_Metadata r))"
  using assms
  by (simp add: ServiceModelToResponse_def fold_capability_rows fold_metadata_rows
      fold_upd_map_of map_cat_Name_rows wf_request_def entries_def)

lemma preload_register_effect:
  assumes "fresh_id sid db" and "ID s = sid"
  shows "Capabilities (preload (register_effect r sid now tc db) s) =
           capability_rows sid (entries (req_Capabilities r)) \<and>
         Categories (preload (register_effect r sid now tc db) s) =
           category_rows sid (entries (req_Categories r)) \<and>
         Metadata (preload (register_effect r sid now tc db) s) =
           metadata_rows sid (entries (req_Metadata r))"
proof -
  from assms(1) have "filter (\<lambda>x. cap_ServiceID x = sid) (capabilities db) = []"
    and "filter (\<lambda>x. cat_ServiceID x = sid) (categories db) = []"
    and "filter (\<lambda>x. md_ServiceID x = sid) (metadata_items db) = []"
    by (auto simp: fresh_id_def filter_empty_conv)
  with assms(2) show ?thesis
    by (simp add: preload_def register_effect_def filter_capability_rows filter_category_rows
        filter_metadata_rows)
qed

lemma preload_update_effect:
  assumes "ID s = sid"
  shows "Capabilities (preload (update_effect sid r now db) s) =
           capability_rows sid (entries (req_Capabilities r)) \<and>
         Categories (preload (update_effect sid r now db) s) =
           category_rows sid (entries (req_Categories r)) \<and>
         Metadata (preload (update_effect sid r now db) s) =
           metadata_rows sid (entries (req_Metadata r))"
  using assms
  by (simp add: preload_def update_effect_def filter_capability_rows filter_category_rows
      filter_metadata_rows filter_eq_neq)

section \<open>Registration: validation\<close>

lemma ValidationError_simps:
  "ValidationError (Inl (BadRequest m))" "\<not> ValidationError (Inr x)"
  "\<not> ValidationError (Inl (InternalServerError m))" "\<not> ValidationError (Inl (NotFound m))"
  by (simp_all add: ValidationError_def)

lemma or_rollback_not_validation:
  "(\<And>tx. \<not> ValidationError (fst (k tx))) \<Longrightarrow>
   \<not> ValidationError (fst (or_rollback res msg db k))"
  by (simp add: or_rollback_eq ValidationError_simps)

lemma Create_valid:
  "\<not> missing_required r \<Longrightarrow>
   \<not> ValidationError (fst (CreateServiceHandler (Inr r) sid now tc c))"
  unfolding CreateServiceHandler_def
  by (simp add: ValidationError_simps Let_def split: prod.splits)

lemma Create_part_001_valid:
  "\<not> missing_required r \<Longrightarrow>
   \<not> ValidationError (fst (CreateServiceHandler_part_001 (Inr r) sid now tc c))"
  unfolding CreateServiceHandler_part_001_def
  apply (simp split: prod.splits)
  apply (intro allI impI conjI)
   apply (simp add: ValidationError_simps)
  apply (intro or_rollback_not_validation)
  apply (simp add: ValidationError_simps split: prod.splits option.splits)
  done

text \<open>
  C4. Registration answers 400 (\<open>ValidationError\<close>) exactly when the decoded request has an
  empty name, an empty url, no capabilities field or no categories field; it then returns the
  handle as it received it, so no statement has reached the store. A request with an empty
  capabilities mapping, an empty categories list and no metadata field passes the check,
  and is registered (201) when its identifier is new and no statement fails.
  This holds for \<open>CreateServiceHandler\<close> of \<open>handlers.go\<close> and of \<open>part_001\<close>.
\<close>

theorem Register_validation:
  "(ValidationError (fst (CreateServiceHandler (Inr r) sid now tc c)) =
      (req_Name r = [] \<or> req_URL r = [] \<or> req_Capabilities r = None \<or>
       req_Categories r = None)) \<and>
   (ValidationError (fst (CreateServiceHandler (Inr r) sid now tc c)) \<longrightarrow>
      snd (CreateServiceHandler (Inr r) sid now tc c) = c) \<and>
   (ValidationError (fst (CreateServiceHandler_part_001 (Inr r) sid now tc c)) =
      (req_Name r = [] \<or> req_URL r = [] \<or> req_Capabilities r = None \<or>
       req_Categories r = None)) \<and>
   (ValidationError (fst (CreateServiceHandler_part_001 (Inr r) sid now tc c)) \<longrightarrow>
      snd (CreateServiceHandler_part_001 (Inr r) sid now tc c) = c) \<and>
   (req_Name r \<noteq> [] \<and> req_URL r \<noteq> [] \<and> req_Capabilities r = Some [] \<and>
    req_Categories r = Some [] \<and> req_Metadata r = None \<and>
    sid \<notin> set (map ID (mcp_services db)) \<longrightarrow>
      succeeded (fst (CreateServiceHandler (Inr r) sid now tc (db, []))) \<and>
      succeeded (fst (CreateServiceHandler_part_001 (Inr r) sid now tc (db, []))))"
proof -
  have check: "(ValidationError (fst (CreateServiceHandler (Inr r) sid now tc c)) =
      (req_Name r = [] \<or> req_URL r = [] \<or> req_Capabilities r = None \<or>
       req_Categories r = None)) \<and>
   (ValidationError (fst (CreateServiceHandler (Inr r) sid now tc c)) \<longrightarrow>
      snd (CreateServiceHandler (Inr r) sid now tc c) = c) \<and>
   (ValidationError (fst (CreateServiceHandler_part_001 (Inr r) sid now tc c)) =
      (req_Name r = [] \<or> req_URL r = [] \<or> req_Capabilities r = None \<or>
       req_Categories r = None)) \<and>
   (ValidationError (fst (CreateServiceHandler_part_001 (Inr r) sid now tc c)) \<longrightarrow>
      snd (CreateServiceHandler_part_001 (Inr r) sid now tc c) = c)"
  proof (cases "missing_required r")
    case True
    then show ?thesis
      by (simp add: CreateServiceHandler_def CreateServiceHandler_part_001_def
          ValidationError_simps)
         (simp add: missing_required_def)
  next
    case False
    from False have "\<not> (req_Name r = [] \<or> req_URL r = [] \<or> req_Capabilities r = None \<or>
         req_Categories r = None)"
      by (simp add: missing_required_def)
    with Create_valid [OF False] Create_part_001_valid [OF False] show ?thesis
      by simp
  qed
  have accepted: "succeeded (fst (CreateServiceHandler (Inr r) sid now tc (db, []))) \<and>
      succeeded (fst (CreateServiceHandler_part_001 (Inr r) sid now tc (db, [])))"
    if "req_Name r \<noteq> []" "req_URL r \<noteq> []" "req_Capabilities r = Some []"
      "req_Categories r = Some []" and new: "sid \<notin> set (map ID (mcp_services db))"
  proof -
    from that have v: "\<not> missing_required r"
      by (simp add: missing_required_def)
    from Create_ok [OF v new, of now tc] Create_part_001_ok [OF v new, of now tc]
    show ?thesis by (simp add: succeeded_def)
  qed
  from accepted have "req_Name r \<noteq> [] \<and> req_URL r \<noteq> [] \<and> req_Capabilities r = Some [] \<and>
    req_Categories r = Some [] \<and> req_Metadata r = None \<and>
    sid \<notin> set (map ID (mcp_services db)) \<longrightarrow>
      succeeded (fst (CreateServiceHandler (Inr r) sid now tc (db, []))) \<and>
      succeeded (fst (CreateServiceHandler_part_001 (Inr r) sid now tc (db, [])))"
    by blast
  with check show ?thesis by auto
qed

theorem Register_validation_witness:
  "succeeded
     (fst (CreateServiceHandler (Inr minimal_request) ''id-1'' 100 100 (empty_store, []))) \<and>
   succeeded
     (fst (CreateServiceHandler_part_001 (Inr minimal_request) ''id-1'' 100 100
             (empty_store, []))) \<and>
   ValidationError
     (fst (CreateServiceHandler (Inr (minimal_request\<lparr>req_Categories := None\<rparr>)) ''id-1'' 100
             100 (empty_store, [True]))) \<and>
   snd (CreateServiceHandler (Inr (minimal_request\<lparr>req_Categories := None\<rparr>)) ''id-1'' 100 100
          (empty_store, [True])) = (empty_store, [True]) \<and>
   ValidationError
     (fst (CreateServiceHandler_part_001 (Inr (minimal_request\<lparr>req_Name := []\<rparr>)) ''id-1''
             100 100 (empty_store, [True]))) \<and>
   snd (CreateServiceHandler_part_001 (Inr (minimal_request\<lparr>req_Name := []\<rparr>)) ''id-1'' 100 100
          (empty_store, [True])) = (empty_store, [True])"
  using
    Register_validation [of minimal_request "''id-1''" 100 100 "(empty_store, [])" empty_store]
    Register_validation [of "minimal_request\<lparr>req_Categories := None\<rparr>" "''id-1''" 100 100
      "(empty_store, [True])" empty_store]
    Register_validation [of "minimal_request\<lparr>req_Name := []\<rparr>" "''id-1''" 100 100
      "(empty_store, [True])" empty_store]
  by (simp add: minimal_request_def empty_store_def)

text \<open>A body that does not decode is answered 400 too, by both revisions, before any statement.\<close>

lemma Create_undecodable:
  "CreateServiceHandler (Inl e) sid now tc c = (Inl (BadRequest e), c)"
  "CreateServiceHandler_part_001 (Inl e) sid now tc c = (Inl (BadRequest e), c)"
  by (simp_all add: CreateServiceHandler_def CreateServiceHandler_part_001_def)

section \<open>Registration: the answer carries the collections of the request\<close>



lemma wf_register_effect:
  "wf_store db \<Longrightarrow> sid \<notin> set (map ID (mcp_services db)) \<Longrightarrow>
   wf_store (register_effect r sid now tc db)"
  by (auto simp: wf_store_def register_effect_def new_service_def)

lemma same_collections_register:
  assumes "wf_request r" and "fresh_id sid db"
  shows "same_collections r
           (ServiceModelToResponse
              (preload (register_effect r sid now tc db)
                 ((new_service r sid now)\<lparr>CreatedAt := tc\<rparr>)))"
proof -
  have "ID ((new_service r sid now)\<lparr>CreatedAt := tc\<rparr>) = sid"
    by (simp add: new_service_def)
  from preload_register_effect [OF assms(2) this] response_of_rows [OF assms(1)]
  show ?thesis
    unfolding same_collections_def by blast
qed

lemma same_collections_update:
  assumes "wf_request r" and "lookup sid db = Some s"
  shows "same_collections r
           (ServiceModelToResponse
              (preload (update_effect sid r now db) (updated_service s r now)))"
proof -
  from lookup_Some [OF assms(2)] have "ID (updated_service s r now) = sid"
    by (simp add: updated_service_keeps)
  from preload_update_effect [OF this] response_of_rows [OF assms(1)]
  show ?thesis
    unfolding same_collections_def by blast
qed

lemma children_register_effect:
  assumes "fresh_id sid db"
  shows "replaced_by sid r (register_effect r sid now tc db)"
proof -
  from assms have "filter (\<lambda>x. cap_ServiceID x = sid) (capabilities db) = []"
    and "filter (\<lambda>x. cat_ServiceID x = sid) (categories db) = []"
    and "filter (\<lambda>x. md_ServiceID x = sid) (metadata_items db) = []"
    by (auto simp: fresh_id_def filter_empty_conv)
  then show ?thesis
    by (simp add: replaced_by_def capabilities_of_def categories_of_def metadata_of_def
        register_effect_def filter_capability_rows filter_category_rows filter_metadata_rows)
qed

lemma overwritten_register_effect:
  "sid \<notin> set (map ID (mcp_services db)) \<Longrightarrow>
   overwritten_by sid r (register_effect r sid now tc db)"
  by (simp add: overwritten_by_def lookup_register_effect new_service_def)

lemma read_back_register_effect:
  "sid \<notin> set (map ID (mcp_services db)) \<Longrightarrow>
   read_back sid (register_effect r sid now tc db)
     (ServiceModelToResponse
        (preload (register_effect r sid now tc db) ((new_service r sid now)\<lparr>CreatedAt := tc\<rparr>)))"
  by (simp add: read_back_def lookup_register_effect)

lemma registered_effect:
  assumes "wf_request r" and "fresh_id sid db"
  shows "registered r sid db (register_effect r sid now tc db)
           (ServiceModelToResponse
              (preload (register_effect r sid now tc db)
                 ((new_service r sid now)\<lparr>CreatedAt := tc\<rparr>)))"
proof -
  from assms(2) have new: "sid \<notin> set (map ID (mcp_services db))"
    by (simp add: fresh_id_def)
  have "mcp_services (register_effect r sid now tc db) =
          mcp_services db @
          (case lookup sid (register_effect r sid now tc db) of None \<Rightarrow> [] | Some s \<Rightarrow> [s])"
    by (simp add: lookup_register_effect [OF new]) (simp add: register_effect_def)
  moreover have "capabilities (register_effect r sid now tc db) =
        capabilities db @ capability_rows sid (entries (req_Capabilities r))"
    "categories (register_effect r sid now tc db) =
        categories db @ category_rows sid (entries (req_Categories r))"
    "metadata_items (register_effect r sid now tc db) =
        metadata_items db @ metadata_rows sid (entries (req_Metadata r))"
    by (simp_all add: register_effect_def)
  ultimately show ?thesis
    unfolding registered_def
    using overwritten_register_effect [OF new, of r now tc]
      children_register_effect [OF assms(2), of r now tc]
      read_back_register_effect [OF new, of r now tc]
      same_collections_register [OF assms, of now tc]
    by blast
qed

text \<open>
  C7. For a valid request (its maps have distinct keys, as every Go map has) and a new
  identifier, registration on a store none of whose statements fails answers 201 in both
  revisions: the row of the service and the child rows of the request are stored after the
  rows that were there, the answer is \<open>ServiceModelToResponse\<close> of the stored service read
  back with its child rows, and the capabilities mapping, the categories list and the
  metadata mapping of the answer are those of the request (an absent metadata field reads as
  the empty mapping). In \<open>part_001\<close> the same holds of every 201 answer, whatever the
  fault schedule.
\<close>

theorem Register_round_trip:
  assumes "\<not> missing_required r" and "wf_request r" and "fresh_id sid db"
  shows "(\<exists>resp db'. CreateServiceHandler (Inr r) sid now tc (db, []) = (Inr resp, db', []) \<and>
            registered r sid db db' resp) \<and>
         (\<exists>resp. fst (CreateServiceHandler_part_001 (Inr r) sid now tc (db, [])) = Inr resp \<and>
            registered r sid db
              (fst (snd (CreateServiceHandler_part_001 (Inr r) sid now tc (db, [])))) resp) \<and>
         (\<forall>fs resp. fst (CreateServiceHandler_part_001 (Inr r) sid now tc (db, fs)) = Inr resp \<longrightarrow>
            registered r sid db
              (fst (snd (CreateServiceHandler_part_001 (Inr r) sid now tc (db, fs)))) resp)"
proof -
  from assms(3) have new: "sid \<notin> set (map ID (mcp_services db))"
    by (simp add: fresh_id_def)
  note reg = registered_effect [OF assms(2,3), of now tc]
  have "\<exists>resp db'. CreateServiceHandler (Inr r) sid now tc (db, []) = (Inr resp, db', []) \<and>
            registered r sid db db' resp"
    using Create_ok [OF assms(1) new, of now tc] reg by blast
  moreover have "\<exists>resp. fst (CreateServiceHandler_part_001 (Inr r) sid now tc (db, [])) = Inr resp \<and>
            registered r sid db
              (fst (snd (CreateServiceHandler_part_001 (Inr r) sid now tc (db, [])))) resp"
    using Create_part_001_ok [OF assms(1) new, of now tc] reg by simp
  moreover have "registered r sid db
              (fst (snd (CreateServiceHandler_part_001 (Inr r) sid now tc (db, fs)))) resp"
    if "fst (CreateServiceHandler_part_001 (Inr r) sid now tc (db, fs)) = Inr resp" for fs resp
    using Create_part_001_Inr [OF assms(1) that] reg by simp
  ultimately show ?thesis by blast
qed

theorem Register_round_trip_witness:
  "\<not> missing_required sample_request \<and> wf_request sample_request \<and>
   fresh_id ''id-1'' empty_store \<and>
   (\<exists>resp db'. CreateServiceHandler (Inr sample_request) ''id-1'' 100 101 (empty_store, []) =
                  (Inr resp, db', []) \<and>
                registered sample_request ''id-1'' empty_store db' resp) \<and>
   (\<exists>resp. fst (CreateServiceHandler_part_001 (Inr sample_request) ''id-1'' 100 101
                  (empty_store, [])) = Inr resp \<and>
           registered sample_request ''id-1'' empty_store
             (fst (snd (CreateServiceHandler_part_001 (Inr sample_request) ''id-1'' 100 101
                          (empty_store, [])))) resp)"
proof -
  have "\<not> missing_required sample_request" "wf_request sample_request"
    "fresh_id ''id-1'' empty_store"
    by (simp_all add: missing_required_def wf_request_def fresh_id_def sample_request_def
        empty_store_def)
  from this Register_round_trip [OF this] show ?thesis by blast
qed

section \<open>Update\<close>

subsection \<open>Full replacement\<close>

lemma children_update_effect:
  "capabilities_of sid (update_effect sid r now db) =
     capability_rows sid (entries (req_Capabilities r)) \<and>
   categories_of sid (update_effect sid r now db) =
     category_rows sid (entries (req_Categories r)) \<and>
   metadata_of sid (update_effect sid r now db) =
     metadata_rows sid (entries (req_Metadata r))"
  by (simp add: capabilities_of_def categories_of_def metadata_of_def update_effect_def
      filter_capability_rows filter_category_rows filter_metadata_rows filter_eq_neq)

text \<open>
  C3. For an existing service and any decoded payload, an update none of whose statements fails
  answers 200 in both revisions; afterwards the child rows of the service are exactly the rows
  of the payload, in the payload's order, so that every capability, category and metadata
  key that is not in the payload is gone, and the collections of the answer are those of the
  payload. In \<open>part_001\<close> the same holds of every 200 answer, whatever the fault
  schedule.
\<close>

theorem Update_full_replace:
  assumes "wf_store db" and "wf_request r" and "lookup sid db = Some s" and "sid \<noteq> []"
  shows "(\<exists>resp. fst (UpdateServiceHandler sid (Inr r) now (db, [])) = Inr resp \<and>
            same_collections r resp) \<and>
         replaced_by sid r (fst (snd (UpdateServiceHandler sid (Inr r) now (db, [])))) \<and>
         (\<exists>resp. fst (UpdateServiceHandler_part_001 sid (Inr r) now (db, [])) = Inr resp \<and>
            same_collections r resp) \<and>
         (\<forall>fs resp. fst (UpdateServiceHandler_part_001 sid (Inr r) now (db, fs)) = Inr resp \<longrightarrow>
            same_collections r resp \<and>
            replaced_by sid r (fst (snd (UpdateServiceHandler_part_001 sid (Inr r) now (db, fs)))))"
proof -
  note sc = same_collections_update [OF assms(2,3), of now]
  have rb: "replaced_by sid r (update_effect sid r now db)"
    unfolding replaced_by_def by (rule children_update_effect)
  have "\<exists>resp. fst (UpdateServiceHandler sid (Inr r) now (db, [])) = Inr resp \<and>
            same_collections r resp"
    using Update_ok [OF assms(1,3,4), of r now] sc by simp
  moreover have "replaced_by sid r (fst (snd (UpdateServiceHandler sid (Inr r) now (db, []))))"
    using Update_ok [OF assms(1,3,4), of r now] rb by simp
  moreover have "\<exists>resp. fst (UpdateServiceHandler_part_001 sid (Inr r) now (db, [])) = Inr resp \<and>
            same_collections r resp"
    using Update_part_001_ok [OF assms(1,3,4), of r now] sc by simp
  moreover have "same_collections r resp \<and>
       replaced_by sid r (fst (snd (UpdateServiceHandler_part_001 sid (Inr r) now (db, fs))))"
    if "fst (UpdateServiceHandler_part_001 sid (Inr r) now (db, fs)) = Inr resp" for fs resp
    using Update_part_001_Inr [OF assms(1,3,4) that] sc rb by simp
  ultimately show ?thesis by blast
qed

theorem Update_full_replace_witness:
  "wf_store sample_store \<and> lookup ''id-1'' sample_store \<noteq> None \<and>
   (\<exists>resp. fst (UpdateServiceHandler ''id-1'' (Inr (sample_request\<lparr>req_Categories := Some [''index'']\<rparr>))
                  200 (sample_store, [])) = Inr resp \<and>
           same_collections (sample_request\<lparr>req_Categories := Some [''index'']\<rparr>) resp) \<and>
   replaced_by ''id-1'' (sample_request\<lparr>req_Categories := Some [''index'']\<rparr>)
     (fst (snd (UpdateServiceHandler ''id-1''
                  (Inr (sample_request\<lparr>req_Categories := Some [''index'']\<rparr>)) 200
                  (sample_store, []))))"
proof -
  have "wf_store sample_store"
    "wf_request (sample_request\<lparr>req_Categories := Some [''index'']\<rparr>)"
    "lookup ''id-1'' sample_store = Some (hd (mcp_services sample_store))" "''id-1'' \<noteq> []"
    by (simp_all add: wf_store_def wf_request_def lookup_def sample_store_def
        sample_request_def)
  from this Update_full_replace [OF this] show ?thesis by simp
qed

text \<open>
  The example of the specification: a service registered under the category \<open>search\<close> and
  then updated with the categories \<open>index\<close> is no longer listed under \<open>search\<close> and is
  listed under \<open>index\<close>.
\<close>

lemma List_after_update:
  "found (fst (ListServicesHandler ''search'' (sample_store, []))) = [''id-1''] \<and>
   found (fst (ListServicesHandler ''search''
                 (fst (snd (UpdateServiceHandler ''id-1''
                              (Inr (sample_request\<lparr>req_Categories := Some [''index'']\<rparr>)) 200
                              (sample_store, []))), []))) = [] \<and>
   found (fst (ListServicesHandler ''index''
                 (fst (snd (UpdateServiceHandler ''id-1''
                              (Inr (sample_request\<lparr>req_Categories := Some [''index'']\<rparr>)) 200
                              (sample_store, []))), []))) = [''id-1'']"
proof -
  have wf: "wf_store sample_store"
    by (simp add: wf_store_def sample_store_def)
  have l: "lookup ''id-1'' sample_store = Some (hd (mcp_services sample_store))"
    by (simp add: lookup_def sample_store_def)
  have n: "''id-1'' \<noteq> []" by simp
  note u = Update_ok [OF wf l n, of "sample_request\<lparr>req_Categories := Some [''index'']\<rparr>" 200]
  have c: "categories (update_effect ''id-1''
                         (sample_request\<lparr>req_Categories := Some [''index'']\<rparr>) 200 sample_store) =
             [\<lparr>cat_ServiceID = ''id-1'', cat_Name = ''index''\<rparr>]"
    and m: "map ID (mcp_services (update_effect ''id-1''
                         (sample_request\<lparr>req_Categories := Some [''index'']\<rparr>) 200 sample_store)) =
             [''id-1'']"
    by (simp_all add: update_effect_def sample_store_def sample_request_def category_rows_def
        entries_def updated_service_def)
  have f: "found (fst (ListServicesHandler category (db, []))) =
             (if category \<noteq> [] \<and> filter (\<lambda>x. cat_Name x = category) (categories db) = [] then []
              else map ID (filter (\<lambda>x. category = [] \<or>
                               ID x \<in> set (map cat_ServiceID
                                  (filter (\<lambda>x. cat_Name x = category) (categories db))))
                            (mcp_services db)))" for category db
    by (auto simp: ListServicesHandler_def Pluck_service_ids_def Find_services_def fails_simps
        entries_def found_def ServiceModelToResponse_def preload_def comp_def
        intro!: filter_cong)
  have "found (fst (ListServicesHandler ''search'' (sample_store, []))) = [''id-1'']"
    by (simp add: f sample_store_def)
  moreover have "found (fst (ListServicesHandler ''search''
                 (fst (snd (UpdateServiceHandler ''id-1''
                              (Inr (sample_request\<lparr>req_Categories := Some [''index'']\<rparr>)) 200
                              (sample_store, []))), []))) = []"
    by (simp add: u f c)
  moreover have "found (fst (ListServicesHandler ''index''
                 (fst (snd (UpdateServiceHandler ''id-1''
                              (Inr (sample_request\<lparr>req_Categories := Some [''index'']\<rparr>)) 200
                              (sample_store, []))), []))) = [''id-1'']"
  proof -
    define db' where "db' = update_effect ''id-1''
                         (sample_request\<lparr>req_Categories := Some [''index'']\<rparr>) 200 sample_store"
    have "\<exists>x. mcp_services db' = [x] \<and> ID x = ''id-1''"
      by (simp add: db'_def update_effect_def sample_store_def updated_service_def)
    then obtain x where x: "mcp_services db' = [x]" "ID x = ''id-1''" by blast
    have "found (fst (ListServicesHandler ''index'' (db', []))) = [''id-1'']"
      using c by (simp add: f x db'_def [symmetric])
    then show ?thesis by (simp add: u db'_def)
  qed
  ultimately show ?thesis by blast
qed

subsection \<open>Idempotence\<close>





subsection \<open>No validation\<close>

lemma overwritten_update_effect:
  "lookup sid db = Some s \<Longrightarrow> overwritten_by sid r (update_effect sid r now db)"
  by (simp add: overwritten_by_def lookup_update_effect updated_service_def)

lemma Update_never_validation:
  "\<not> ValidationError (fst (UpdateServiceHandler sid (Inr r) now (db, fs)))"
  if "sid \<noteq> []"
  using that unfolding UpdateServiceHandler_def
  by (simp add: ValidationError_simps Let_def split: prod.splits option.splits)

lemma Update_part_001_never_validation:
  assumes "wf_store db" and "sid \<noteq> []"
  shows "\<not> ValidationError (fst (UpdateServiceHandler_part_001 sid (Inr r) now (db, fs)))"
proof (cases "lookup sid db")
  case None
  with assms(2) show ?thesis
    unfolding UpdateServiceHandler_part_001_def
    by (simp add: First_service_eq ValidationError_simps)
next
  case (Some s)
  from Update_part_001_cases [OF assms(1) Some assms(2), of r now fs]
  have "fst (UpdateServiceHandler_part_001 sid (Inr r) now (db, fs)) \<in>
          range (\<lambda>m. Inl (NotFound m)) \<union> range (\<lambda>m. Inl (InternalServerError m)) \<union> range Inr"
    by (auto split: if_splits)
  then show ?thesis
    by (auto simp: ValidationError_simps)
qed

text \<open>
  C10. For an existing service, an update never answers 400 for a decoded payload, whatever
  the payload and the fault schedule; with no failing statement it answers 200, the stored
  name, description and url are the payload's, and the child rows are the payload's (none
  for an absent or empty collection). The payload of the instance below has an empty name, an
  empty url and no collections at all, which registration rejects. Both revisions.
\<close>

theorem Update_no_validation:
  assumes "wf_store db" and "lookup sid db = Some s" and "sid \<noteq> []"
  shows "(\<exists>resp db'.
            UpdateServiceHandler sid (Inr r) now (db, []) = (Inr resp, db', []) \<and>
            resp_Name resp = req_Name r \<and> resp_Description resp = req_Description r \<and>
            resp_URL resp = req_URL r \<and> overwritten_by sid r db' \<and> replaced_by sid r db') \<and>
         (\<exists>resp db'.
            fst (UpdateServiceHandler_part_001 sid (Inr r) now (db, [])) = Inr resp \<and>
            fst (snd (UpdateServiceHandler_part_001 sid (Inr r) now (db, []))) = db' \<and>
            resp_Name resp = req_Name r \<and> resp_Description resp = req_Description r \<and>
            resp_URL resp = req_URL r \<and> overwritten_by sid r db' \<and> replaced_by sid r db') \<and>
         (\<forall>fs. \<not> ValidationError (fst (UpdateServiceHandler sid (Inr r) now (db, fs))) \<and>
               \<not> ValidationError (fst (UpdateServiceHandler_part_001 sid (Inr r) now (db, fs))))"
proof -
  let ?db' = "update_effect sid r now db"
  let ?resp = "ServiceModelToResponse (preload ?db' (updated_service s r now))"
  have fields: "resp_Name ?resp = req_Name r \<and> resp_Description ?resp = req_Description r \<and>
        resp_URL ?resp = req_URL r"
    by (simp add: ServiceModelToResponse_def preload_def updated_service_def)
  have ow: "overwritten_by sid r ?db'" by (rule overwritten_update_effect [OF assms(2)])
  have rb: "replaced_by sid r ?db'"
    unfolding replaced_by_def by (rule children_update_effect)
  have "\<exists>resp db'.
            UpdateServiceHandler sid (Inr r) now (db, []) = (Inr resp, db', []) \<and>
            resp_Name resp = req_Name r \<and> resp_Description resp = req_Description r \<and>
            resp_URL resp = req_URL r \<and> overwritten_by sid r db' \<and> replaced_by sid r db'"
    using Update_ok [OF assms, of r now] fields ow rb by blast
  moreover have "\<exists>resp db'.
            fst (UpdateServiceHandler_part_001 sid (Inr r) now (db, [])) = Inr resp \<and>
            fst (snd (UpdateServiceHandler_part_001 sid (Inr r) now (db, []))) = db' \<and>
            resp_Name resp = req_Name r \<and> resp_Description resp = req_Description r \<and>
            resp_URL resp = req_URL r \<and> overwritten_by sid r db' \<and> replaced_by sid r db'"
    using Update_part_001_ok [OF assms, of r now] fields ow rb by simp
  moreover have "\<not> ValidationError (fst (UpdateServiceHandler sid (Inr r) now (db, fs))) \<and>
               \<not> ValidationError (fst (UpdateServiceHandler_part_001 sid (Inr r) now (db, fs)))"
    for fs
    using Update_never_validation [OF assms(3)]
      Update_part_001_never_validation [OF assms(1,3)] by simp
  ultimately show ?thesis by blast
qed

theorem Update_no_validation_witness:
  "wf_store sample_store \<and> lookup ''id-1'' sample_store \<noteq> None \<and>
   missing_required blank_request \<and>
   (\<exists>resp db'.
      UpdateServiceHandler ''id-1'' (Inr blank_request) 200 (sample_store, []) =
        (Inr resp, db', []) \<and>
      resp_Name resp = req_Name blank_request \<and>
      resp_Description resp = req_Description blank_request \<and>
      resp_URL resp = req_URL blank_request \<and> overwritten_by ''id-1'' blank_request db' \<and>
      replaced_by ''id-1'' blank_request db')"
proof -
  have "wf_store sample_store"
    "lookup ''id-1'' sample_store = Some (hd (mcp_services sample_store))" "''id-1'' \<noteq> []"
    by (simp_all add: wf_store_def lookup_def sample_store_def)
  from this Update_no_validation [OF this, of blank_request 200]
  show ?thesis by (simp add: missing_required_def blank_request_def)
qed

section \<open>Heartbeat\<close>

lemma NotFoundError_simps:
  "NotFoundError (Inl (NotFound m))" "\<not> NotFoundError (Inr x)"
  "\<not> NotFoundError (Inl (InternalServerError m))" "\<not> NotFoundError (Inl (BadRequest m))"
  by (simp_all add: NotFoundError_def)

lemma Save_heartbeat:
  "wf_store db \<Longrightarrow> lookup sid db = Some s \<Longrightarrow>
   Save_service (s\<lparr>LastSeen := now\<rparr>) (db, fs) =
     (fails fs, if fails fs then db else heartbeat_effect sid now db, tl fs)"
  using Save_found [where g = "\<lambda>x. x\<lparr>LastSeen := now\<rparr>" and db = db and sid = sid and s = s]
  by (simp add: heartbeat_effect_def)

lemma Heartbeat_cases:
  assumes "wf_store db" and "sid \<noteq> []"
  shows "HeartbeatHandler sid now (db, fs) =
     (if fails fs \<or> lookup sid db = None then (Inl (NotFound ''Service not found''), db, tl fs)
      else (Inr ''Heartbeat received'',
            if fails (tl fs) then db else heartbeat_effect sid now db, tl (tl fs)))"
proof (cases "lookup sid db")
  case None
  with assms(2) show ?thesis
    by (simp add: HeartbeatHandler_def First_service_eq)
next
  case (Some s)
  with assms(2) show ?thesis
    by (simp add: HeartbeatHandler_def First_service_eq Save_heartbeat [OF assms(1) Some])
qed

lemma lookup_heartbeat_effect:
  "lookup sid' (heartbeat_effect sid now db) =
     (if sid' = sid then map_option (\<lambda>x. x\<lparr>LastSeen := now\<rparr>) (lookup sid db)
      else lookup sid' db)"
proof -
  have f: "find (\<lambda>x. ID x = sid') (map (\<lambda>x. if ID x = sid then x\<lparr>LastSeen := now\<rparr> else x) xs) =
        (if sid' = sid then map_option (\<lambda>x. x\<lparr>LastSeen := now\<rparr>) (find (\<lambda>x. ID x = sid) xs)
         else find (\<lambda>x. ID x = sid') xs)" for xs :: "MCPService list"
    by (induction xs) auto
  show ?thesis
    by (simp add: lookup_def heartbeat_effect_def f)
qed

lemma Get_eq:
  "sid \<noteq> [] \<Longrightarrow>
   fst (GetServiceHandler sid (db, [])) =
     (case lookup sid db of
        None \<Rightarrow> Inl (NotFound ''Service not found'')
      | Some s \<Rightarrow> Inr (ServiceModelToResponse (preload db s)))"
  by (simp add: GetServiceHandler_def First_preload_eq fails_simps split: option.splits)

lemma response_heartbeat:
  "ServiceModelToResponse (preload (heartbeat_effect sid now db) (s\<lparr>LastSeen := now\<rparr>)) =
   (ServiceModelToResponse (preload db s))\<lparr>resp_LastSeen := now\<rparr>"
  by (simp add: ServiceModelToResponse_def preload_def heartbeat_effect_def)

text \<open>
  C6. Heartbeat of an existing service, on a store whose statements succeed, answers 200 and
  writes the current time into \<open>last_seen\<close> of that service and nothing else: the row keeps
  its other columns, so that what \<open>Get\<close> returns differs in \<open>last_seen\<close> only, the three
  child tables and all other rows are as before. Under any fault schedule the store afterwards
  is either the one before or that one. For an identifier with no row the answer is 404 and
  the store is unchanged. The handler is the same in both revisions; the router never passes
  an empty identifier.
\<close>

theorem Heartbeat_sets_last_seen_only:
  assumes "wf_store db" and "sid \<noteq> []"
  shows "(lookup sid db = None \<longrightarrow>
            (\<forall>fs. NotFoundError (fst (HeartbeatHandler sid now (db, fs))) \<and>
                  fst (snd (HeartbeatHandler sid now (db, fs))) = db)) \<and>
         (\<forall>s. lookup sid db = Some s \<longrightarrow>
            HeartbeatHandler sid now (db, []) =
              (Inr ''Heartbeat received'', heartbeat_effect sid now db, []) \<and>
            lookup sid (heartbeat_effect sid now db) = Some (s\<lparr>LastSeen := now\<rparr>) \<and>
            fst (GetServiceHandler sid (heartbeat_effect sid now db, [])) =
              Inr ((ServiceModelToResponse (preload db s))\<lparr>resp_LastSeen := now\<rparr>) \<and>
            fst (GetServiceHandler sid (db, [])) = Inr (ServiceModelToResponse (preload db s))) \<and>
         same_children (heartbeat_effect sid now db) db \<and>
         (\<forall>other. other \<noteq> sid \<longrightarrow> lookup other (heartbeat_effect sid now db) = lookup other db) \<and>
         (\<forall>fs. fst (snd (HeartbeatHandler sid now (db, fs))) = db \<or>
               fst (snd (HeartbeatHandler sid now (db, fs))) = heartbeat_effect sid now db)"
proof -
  note hc = Heartbeat_cases [OF assms]
  have "\<forall>fs. NotFoundError (fst (HeartbeatHandler sid now (db, fs))) \<and>
             fst (snd (HeartbeatHandler sid now (db, fs))) = db" if "lookup sid db = None"
    using that by (simp add: hc NotFoundError_simps)
  moreover have "HeartbeatHandler sid now (db, []) =
              (Inr ''Heartbeat received'', heartbeat_effect sid now db, []) \<and>
            lookup sid (heartbeat_effect sid now db) = Some (s\<lparr>LastSeen := now\<rparr>) \<and>
            fst (GetServiceHandler sid (heartbeat_effect sid now db, [])) =
              Inr ((ServiceModelToResponse (preload db s))\<lparr>resp_LastSeen := now\<rparr>) \<and>
            fst (GetServiceHandler sid (db, [])) = Inr (ServiceModelToResponse (preload db s))"
    if "lookup sid db = Some s" for s
    using that assms(2)
    by (simp add: hc fails_simps lookup_heartbeat_effect Get_eq response_heartbeat)
  moreover have "same_children (heartbeat_effect sid now db) db"
    by (simp add: same_children_def heartbeat_effect_def)
  moreover have "\<forall>other. other \<noteq> sid \<longrightarrow> lookup other (heartbeat_effect sid now db) = lookup other db"
    by (simp add: lookup_heartbeat_effect)
  moreover have "\<forall>fs. fst (snd (HeartbeatHandler sid now (db, fs))) = db \<or>
               fst (snd (HeartbeatHandler sid now (db, fs))) = heartbeat_effect sid now db"
    by (simp add: hc)
  ultimately show ?thesis by blast
qed

theorem Heartbeat_sets_last_seen_only_witness:
  "wf_store sample_store \<and> lookup ''id-1'' sample_store \<noteq> None \<and>
   lookup ''id-2'' sample_store = None \<and>
   HeartbeatHandler ''id-1'' 500 (sample_store, []) =
     (Inr ''Heartbeat received'', heartbeat_effect ''id-1'' 500 sample_store, []) \<and>
   lookup ''id-1'' (heartbeat_effect ''id-1'' 500 sample_store) =
     Some ((hd (mcp_services sample_store))\<lparr>LastSeen := 500\<rparr>) \<and>
   same_children (heartbeat_effect ''id-1'' 500 sample_store) sample_store \<and>
   NotFoundError (fst (HeartbeatHandler ''id-2'' 500 (sample_store, [])))"
proof -
  have wf: "wf_store sample_store"
    by (simp add: wf_store_def sample_store_def)
  have l: "lookup ''id-1'' sample_store = Some (hd (mcp_services sample_store))"
    "lookup ''id-2'' sample_store = None"
    by (simp_all add: lookup_def sample_store_def)
  from Heartbeat_sets_last_seen_only [OF wf, of "''id-1''" 500]
    Heartbeat_sets_last_seen_only [OF wf, of "''id-2''" 500] l wf
  show ?thesis by simp
qed

section \<open>Timestamps\<close>













section \<open>Search by text\<close>

lemma like_percent:
  "like (CHR ''%'' # ps) s =
     (like ps s \<or> (case s of [] \<Rightarrow> False | x # t \<Rightarrow> like (CHR ''%'' # ps) t))"
  by simp

lemma like_plain_Cons:
  "\<not> like_special p \<Longrightarrow>
   like (p # ps) s = (case s of [] \<Rightarrow> False | x # t \<Rightarrow> x = p \<and> like ps t)"
  by (simp add: like_special_def)

lemma like_plain:
  "\<forall>c \<in> set q. \<not> like_special c \<Longrightarrow> like (q @ ps) s = (\<exists>t. s = q @ t \<and> like ps t)"
proof (induction q arbitrary: s)
  case Nil
  show ?case by simp
next
  case (Cons c q)
  then have c: "\<not> like_special c" and q: "\<forall>c \<in> set q. \<not> like_special c"
    by simp_all
  show ?case
    by (cases s) (auto simp: like_plain_Cons [OF c] Cons.IH [OF q] simp del: like.simps)
qed

lemma like_any: "like [CHR ''%''] s"
  by (induction s) simp_all

lemma like_percent_iff:
  "like (CHR ''%'' # ps) s = (\<exists>pre t. s = pre @ t \<and> like ps t)"
proof (induction s)
  case Nil
  show ?case by (subst like_percent) simp
next
  case (Cons x s)
  have "like (CHR ''%'' # ps) (x # s) = (like ps (x # s) \<or> like (CHR ''%'' # ps) s)"
    by (subst like_percent) simp
  also have "\<dots> = (like ps (x # s) \<or> (\<exists>pre t. s = pre @ t \<and> like ps t))"
    by (simp only: Cons.IH)
  also have "\<dots> = (\<exists>pre t. x # s = pre @ t \<and> like ps t)"
    by (auto simp: Cons_eq_append_conv simp del: like.simps)
  finally show ?case .
qed

lemma like_contains:
  assumes "\<forall>c \<in> set q. \<not> like_special c"
  shows "like (CHR ''%'' # q @ [CHR ''%'']) s = sublist q s"
proof -
  have "like (CHR ''%'' # q @ [CHR ''%'']) s =
          (\<exists>pre t. s = pre @ t \<and> (\<exists>u. t = q @ u \<and> like [CHR ''%''] u))"
    by (simp only: like_percent_iff like_plain [OF assms])
  also have "\<dots> = (\<exists>pre u. s = pre @ q @ u)"
    by (auto simp: like_any simp del: like.simps)
  finally show ?thesis
    by (simp add: sublist_def)
qed

lemma special_codes:
  "like_special c = (of_char c = (37::nat) \<or> of_char c = (95::nat) \<or> of_char c = (92::nat))"
proof -
  have "(c = CHR ''%'') = (of_char c = (of_char (CHR ''%'') :: nat))"
    "(c = CHR ''_'') = (of_char c = (of_char (CHR ''_'') :: nat))"
    "(c = CHR 0x5C) = (of_char c = (of_char (CHR 0x5C) :: nat))"
    by (simp_all only: of_char_eq_iff)
  then show ?thesis
    by (simp add: like_special_def)
qed

lemma to_lower_special: "like_special (to_lower c) = like_special c"
proof (cases "65 \<le> (of_char c :: nat) \<and> (of_char c :: nat) \<le> 90")
  case True
  then have "(of_char (char_of (of_char c + 32 :: nat)) :: nat) = of_char c + 32"
    by simp
  with True show ?thesis
    by (simp add: special_codes to_lower_def Let_def)
next
  case False
  then show ?thesis
    by (auto simp add: to_lower_def Let_def)
qed

lemma to_lower_percent: "to_lower (CHR ''%'') = CHR ''%''"
  by (simp add: to_lower_def)

lemma ilike_contains:
  assumes "\<forall>c \<in> set q. \<not> like_special c"
  shows "ilike (''%'' @ q @ ''%'') s = contains_ci q s"
proof -
  from assms have "\<forall>c \<in> set (map to_lower q). \<not> like_special c"
    by (simp add: to_lower_special)
  from like_contains [OF this] show ?thesis
    by (simp add: ilike_def contains_ci_def to_lower_percent del: like.simps)
qed

lemma Search_cases:
  "SearchServicesHandler q (db, fs) =
     (if q = [] then (Inl (BadRequest ''Query parameter 'q' is required''), db, fs)
      else (Inr (if fails fs then []
                 else map (\<lambda>x. ServiceModelToResponse (preload db x))
                        (filter (\<lambda>x. ilike (''%'' @ q @ ''%'') (Name x) \<or>
                                     ilike (''%'' @ q @ ''%'') (Description x))
                           (mcp_services db))),
            db, tl fs))"
  by (simp add: SearchServicesHandler_def Find_ilike_def entries_def del: like.simps)

lemma Search_part_001_cases:
  "SearchServicesHandler_part_001 q (db, fs) =
     (if q = [] then (Inl (BadRequest ''Query parameter 'q' is required''), db, fs)
      else if fails fs then (Inl (InternalServerError ''Error searching for services''), db, tl fs)
      else (Inr (map (\<lambda>x. ServiceModelToResponse (preload db x))
                   (filter (\<lambda>x. ilike (''%'' @ q @ ''%'') (Name x) \<or>
                                ilike (''%'' @ q @ ''%'') (Description x))
                      (mcp_services db))),
            db, tl fs))"
  by (simp add: SearchServicesHandler_part_001_def Find_ilike_def del: like.simps)

text \<open>
  C5, amended. Search answers 400 exactly when the query text is empty. For a non-empty text
  with none of the characters \<open>%\<close>, \<open>_\<close> and backslash, a search whose statement succeeds
  returns exactly the services whose name or description contains the text, letters compared
  without regard to case, in both revisions. For any non-empty text it returns the services
  whose name or description matches the pattern \<open>%text%\<close> under \<open>ILIKE\<close>.
\<close>

theorem Search_substring:
  "(ValidationError (fst (SearchServicesHandler q (db, fs))) = (q = [])) \<and>
   (ValidationError (fst (SearchServicesHandler_part_001 q (db, fs))) = (q = [])) \<and>
   (q \<noteq> [] \<and> (\<forall>c \<in> set q. \<not> like_special c) \<longrightarrow>
      SearchServicesHandler q (db, []) =
        (Inr (map (\<lambda>x. ServiceModelToResponse (preload db x))
                (filter (\<lambda>x. contains_ci q (Name x) \<or> contains_ci q (Description x))
                   (mcp_services db))),
         db, []) \<and>
      SearchServicesHandler_part_001 q (db, []) = SearchServicesHandler q (db, [])) \<and>
   (q \<noteq> [] \<longrightarrow>
      SearchServicesHandler q (db, []) =
        (Inr (map (\<lambda>x. ServiceModelToResponse (preload db x))
                (filter (\<lambda>x. ilike (''%'' @ q @ ''%'') (Name x) \<or>
                             ilike (''%'' @ q @ ''%'') (Description x))
                   (mcp_services db))),
         db, []) \<and>
      SearchServicesHandler_part_001 q (db, []) = SearchServicesHandler q (db, []))"
proof -
  have v: "ValidationError (fst (SearchServicesHandler q (db, fs))) = (q = [])"
    "ValidationError (fst (SearchServicesHandler_part_001 q (db, fs))) = (q = [])"
    by (simp_all add: Search_cases Search_part_001_cases ValidationError_simps)
  have g: "SearchServicesHandler q (db, []) =
        (Inr (map (\<lambda>x. ServiceModelToResponse (preload db x))
                (filter (\<lambda>x. ilike (''%'' @ q @ ''%'') (Name x) \<or>
                             ilike (''%'' @ q @ ''%'') (Description x))
                   (mcp_services db))),
         db, []) \<and>
      SearchServicesHandler_part_001 q (db, []) = SearchServicesHandler q (db, [])"
    if "q \<noteq> []"
    using that by (simp add: Search_cases Search_part_001_cases fails_simps del: like.simps)
  have p: "SearchServicesHandler q (db, []) =
        (Inr (map (\<lambda>x. ServiceModelToResponse (preload db x))
                (filter (\<lambda>x. contains_ci q (Name x) \<or> contains_ci q (Description x))
                   (mcp_services db))),
         db, []) \<and>
      SearchServicesHandler_part_001 q (db, []) = SearchServicesHandler q (db, [])"
    if "q \<noteq> []" and "\<forall>c \<in> set q. \<not> like_special c"
    using g [OF that(1)] by (simp only: ilike_contains [OF that(2)])
  from v g p show ?thesis by blast
qed

lemma found_Search:
  "q \<noteq> [] \<Longrightarrow>
   found (fst (SearchServicesHandler q (db, []))) =
     map ID (filter (\<lambda>x. ilike (''%'' @ q @ ''%'') (Name x) \<or>
                          ilike (''%'' @ q @ ''%'') (Description x)) (mcp_services db))"
  by (simp add: Search_cases found_def fails_simps ServiceModelToResponse_def preload_def
      comp_def del: like.simps)

text \<open>
  C5, as stated, fails for a text with a wildcard: the text \<open>m_p\<close> occurs neither in the name
  nor in the description of the one service of \<open>sample_store\<close>, and the search returns it,
  since \<open>_\<close> matches the \<open>a\<close> of \<open>Mapping\<close>.
\<close>

theorem Search_wildcard_not_substring:
  "map (\<lambda>x. (ID x, Name x, Description x)) (mcp_services sample_store) =
     [(''id-1'', ''Mapping Service'', ''provides geo-mapping'')] \<and>
   \<not> contains_ci ''m_p'' ''Mapping Service'' \<and>
   \<not> contains_ci ''m_p'' ''provides geo-mapping'' \<and>
   found (fst (SearchServicesHandler ''m_p'' (sample_store, []))) = [''id-1''] \<and>
   found (fst (SearchServicesHandler_part_001 ''m_p'' (sample_store, []))) = [''id-1'']"
proof -
  have a: "\<not> contains_ci ''m_p'' ''Mapping Service''"
    "\<not> contains_ci ''m_p'' ''provides geo-mapping''"
    by code_simp+
  have b: "ilike ''%m_p%'' ''Mapping Service''"
    by code_simp
  have c: "found (fst (SearchServicesHandler ''m_p'' (sample_store, []))) = [''id-1'']"
    by (subst found_Search) (simp_all add: sample_store_def b del: like.simps)
  have d: "SearchServicesHandler_part_001 ''m_p'' (sample_store, []) =
           SearchServicesHandler ''m_p'' (sample_store, [])"
    by (simp add: Search_cases Search_part_001_cases fails_simps del: like.simps)
  show ?thesis
    using a c by (simp add: d) (simp add: sample_store_def)
qed

theorem Search_substring_witness:
  "found (fst (SearchServicesHandler ''map'' (search_store, []))) = [''id-1'', ''id-2''] \<and>
   found (fst (SearchServicesHandler_part_001 ''map'' (search_store, []))) = [''id-1'', ''id-2''] \<and>
   ValidationError (fst (SearchServicesHandler [] (search_store, []))) \<and>
   ValidationError (fst (SearchServicesHandler_part_001 [] (search_store, [])))"
proof -
  have p: "''map'' \<noteq> [] \<and> (\<forall>c \<in> set ''map''. \<not> like_special c)"
    by (simp add: like_special_def)
  have m: "contains_ci ''map'' ''Mapping Service''" "\<not> contains_ci ''map'' []"
    "\<not> contains_ci ''map'' ''Atlas''" "contains_ci ''map'' ''provides geo-mapping''"
    "\<not> contains_ci ''map'' ''Weather''" "\<not> contains_ci ''map'' ''forecasts''"
    by code_simp+
  from Search_substring [of "''map''" search_store "[]"] p
  have "found (fst (SearchServicesHandler ''map'' (search_store, []))) = [''id-1'', ''id-2'']"
    and "found (fst (SearchServicesHandler_part_001 ''map'' (search_store, []))) =
         [''id-1'', ''id-2'']"
    by (simp_all add: found_def search_store_def m ServiceModelToResponse_def preload_def)
  with Search_substring [of "[]" search_store "[]"] show ?thesis
    by simp
qed

section \<open>Atomicity of registration and update\<close>

lemma faulty_inserts:
  "faulty (Suc (n1 + n2 + n3)) f =
     (fails f \<or> faulty n1 (tl f) \<or> faulty n2 (drop n1 (tl f)) \<or>
      faulty n3 (drop n2 (drop n1 (tl f))))"
proof -
  have "drop n2 (drop n1 (tl f)) = drop (n1 + n2) (tl f)"
    by (simp add: add.commute)
  then show ?thesis
    by (simp only: faulty_Suc faulty_add) blast
qed

text \<open>
  Registration in \<open>part_001\<close> is all or nothing: when the insert of the service row or of a
  child row fails, the answer is 500 and the committed store is the one before the call.
\<close>

lemma Register_part_001_atomic:
  assumes "\<not> missing_required r"
    and "faulty (Suc (inserts r)) (tl fs) \<or> sid \<in> set (map ID (mcp_services db))"
  shows "StoreError (fst (CreateServiceHandler_part_001 (Inr r) sid now tc (db, fs))) \<and>
         fst (snd (CreateServiceHandler_part_001 (Inr r) sid now tc (db, fs))) = db"
  using Create_part_001_cases [OF assms(1), of sid now tc db fs] assms(2)
  unfolding inserts_def faulty_inserts
  by (auto simp: StoreError_simps split: if_splits simp del: drop_drop tl_drop)

lemma Register_part_001_all_or_nothing:
  "fst (snd (CreateServiceHandler_part_001 b sid now tc (db, fs))) = db \<or>
   (\<exists>r. b = Inr r \<and>
        fst (snd (CreateServiceHandler_part_001 b sid now tc (db, fs))) =
          register_effect r sid now tc db)"
proof (cases b)
  case (Inl e)
  then show ?thesis by (simp add: CreateServiceHandler_part_001_def)
next
  case (Inr r)
  show ?thesis
  proof (cases "missing_required r")
    case True
    with Inr show ?thesis by (simp add: CreateServiceHandler_part_001_def)
  next
    case False
    from Create_part_001_cases [OF False, of sid now tc db fs] Inr show ?thesis
      by (auto split: if_splits)
  qed
qed

lemma Update_part_001_all_or_nothing:
  assumes "wf_store db"
  shows "fst (snd (UpdateServiceHandler_part_001 sid b now (db, fs))) = db \<or>
         (\<exists>r. b = Inr r \<and>
              fst (snd (UpdateServiceHandler_part_001 sid b now (db, fs))) =
                update_effect sid r now db)"
proof (cases "sid = [] \<or> fails fs \<or> lookup sid db = None")
  case True
  then show ?thesis
    by (auto simp: UpdateServiceHandler_part_001_def First_service_eq)
next
  case False
  then obtain s where s: "lookup sid db = Some s" and n: "sid \<noteq> []" and f: "\<not> fails fs"
    by auto
  show ?thesis
  proof (cases b)
    case (Inl e)
    with s n f show ?thesis
      by (simp add: UpdateServiceHandler_part_001_def First_service_eq)
  next
    case (Inr r)
    from Update_part_001_cases [OF assms s n, of r now fs] Inr show ?thesis
      by (auto split: if_splits)
  qed
qed

text \<open>
  C1 fails for \<open>CreateServiceHandler\<close> of \<open>handlers.go\<close>, which drops the result of every
  child insert. With the insert of the first capability failing (second statement), it answers
  201, and the service row, the second capability, the category and the metadata item stay
  in the store. \<open>CreateServiceHandler\<close> of \<open>part_001\<close>, with the same insert failing
  (third statement, after \<open>Begin\<close>), answers 500 and leaves the store as it was.
\<close>

theorem Register_child_failure_unreported:
  "succeeded (fst (CreateServiceHandler (Inr sample_request) ''id-1'' 100 100
                     (empty_store, [False, True]))) \<and>
   \<not> StoreError (fst (CreateServiceHandler (Inr sample_request) ''id-1'' 100 100
                        (empty_store, [False, True]))) \<and>
   fst (snd (CreateServiceHandler (Inr sample_request) ''id-1'' 100 100
               (empty_store, [False, True]))) =
     \<lparr>mcp_services =
        [\<lparr>ID = ''id-1'', Name = ''Mapping Service'', Description = ''provides geo-mapping'',
          URL = ''http://maps.example'', Capabilities = [], Categories = [], CreatedAt = 100,
          LastSeen = 100, Metadata = [], ApiDocs = []\<rparr>],
      capabilities =
        [\<lparr>cap_ServiceID = ''id-1'', cap_Name = ''routing'', cap_Enabled = False\<rparr>],
      categories = [\<lparr>cat_ServiceID = ''id-1'', cat_Name = ''search''\<rparr>],
      metadata_items = [\<lparr>md_ServiceID = ''id-1'', md_Key = ''region'', md_Value = ''eu''\<rparr>]\<rparr> \<and>
   StoreError (fst (CreateServiceHandler_part_001 (Inr sample_request) ''id-1'' 100 100
                      (empty_store, [False, False, True]))) \<and>
   fst (snd (CreateServiceHandler_part_001 (Inr sample_request) ''id-1'' 100 100
               (empty_store, [False, False, True]))) = empty_store"
proof -
  have a: "CreateServiceHandler (Inr sample_request) ''id-1'' 100 100
             (empty_store, [False, True]) =
       (Inr (ServiceModelToResponse
          \<lparr>ID = ''id-1'', Name = ''Mapping Service'', Description = ''provides geo-mapping'',
           URL = ''http://maps.example'',
           Capabilities =
             [\<lparr>cap_ServiceID = ''id-1'', cap_Name = ''routing'', cap_Enabled = False\<rparr>],
           Categories = [\<lparr>cat_ServiceID = ''id-1'', cat_Name = ''search''\<rparr>],
           CreatedAt = 100, LastSeen = 100,
           Metadata = [\<lparr>md_ServiceID = ''id-1'', md_Key = ''region'', md_Value = ''eu''\<rparr>],
           ApiDocs = []\<rparr>),
        \<lparr>mcp_services =
        [\<lparr>ID = ''id-1'', Name = ''Mapping Service'', Description = ''provides geo-mapping'',
          URL = ''http://maps.example'', Capabilities = [], Categories = [], CreatedAt = 100,
          LastSeen = 100, Metadata = [], ApiDocs = []\<rparr>],
      capabilities =
        [\<lparr>cap_ServiceID = ''id-1'', cap_Name = ''routing'', cap_Enabled = False\<rparr>],
      categories = [\<lparr>cat_ServiceID = ''id-1'', cat_Name = ''search''\<rparr>],
      metadata_items = [\<lparr>md_ServiceID = ''id-1'', md_Key = ''region'', md_Value = ''eu''\<rparr>]\<rparr>, [])"
    by (simp add: CreateServiceHandler_def missing_required_def sample_request_def
        empty_store_def new_service_def Create_service_eq Create_capability_eq
        Create_category_eq Create_metadata_eq First_preload_eq fails_simps entries_def
        row_of_def lookup_def preload_def)
  have v: "\<not> missing_required sample_request"
    by (simp add: missing_required_def sample_request_def)
  have f: "faulty (Suc (inserts sample_request)) (tl [False, False, True])"
    by (simp add: faulty_def inserts_def sample_request_def entries_def)
  from Register_part_001_atomic [OF v, of "[False, False, True]" "''id-1''" empty_store 100 100] f
  show ?thesis
    by (simp add: a succeeded_def StoreError_simps)
qed

section \<open>What a pruning cycle deletes\<close>

text \<open>
  A cycle that meets no failure removes the stale services one after the other, each as an
  unregistration without failure does.
\<close>

lemma without_Nil: "without [] db = db"
  by (simp add: without_def)

lemma without_Cons: "without (sid # ids) db = without ids (unregister_effect sid db)"
  by (auto simp: without_def unregister_effect_def intro!: filter_cong)

lemma prune_services_ok:
  "prune_services xs (db, []) = (without (map ID xs) db, [])"
proof (induction xs arbitrary: db)
  case Nil
  show ?case by (simp add: without_Nil)
next
  case (Cons x xs)
  have "db\<lparr>capabilities := filter (\<lambda>y. cap_ServiceID y \<noteq> ID x) (capabilities db),
           categories := filter (\<lambda>y. cat_ServiceID y \<noteq> ID x) (categories db),
           metadata_items := filter (\<lambda>y. md_ServiceID y \<noteq> ID x) (metadata_items db),
           mcp_services := filter (\<lambda>y. ID y \<noteq> ID x) (mcp_services db)\<rparr> =
        unregister_effect (ID x) db"
    by (simp add: unregister_effect_def)
  then have "prune_services (x # xs) (db, []) = prune_services xs (unregister_effect (ID x) db, [])"
    by (simp add: Delete_capabilities_eq Delete_categories_eq Delete_metadata_eq
        Delete_service_eq fails_simps not_referenced_after_deletes)
  then show ?case
    by (simp only: Cons.IH without_Cons list.map)
qed

lemma prune_cycle_ok:
  "prune_cycle threshold now (db, []) =
     (without (map ID (filter (stale threshold now) (mcp_services db))) db, [])"
  by (simp add: prune_cycle_def Find_inactive_def fails_simps entries_def prune_services_ok
      stale_def [abs_def])

lemma Delete_ok:
  assumes "lookup sid db = Some s" and "sid \<noteq> []"
  shows "DeleteServiceHandler sid (db, []) =
           (Inr ''Service unregistered'', unregister_effect sid db, [])"
proof -
  have "db\<lparr>capabilities := filter (\<lambda>y. cap_ServiceID y \<noteq> sid) (capabilities db),
           categories := filter (\<lambda>y. cat_ServiceID y \<noteq> sid) (categories db),
           metadata_items := filter (\<lambda>y. md_ServiceID y \<noteq> sid) (metadata_items db),
           mcp_services := filter (\<lambda>y. ID y \<noteq> sid) (mcp_services db)\<rparr> =
        unregister_effect sid db"
    by (simp add: unregister_effect_def)
  with assms lookup_Some [OF assms(1)] show ?thesis
    unfolding DeleteServiceHandler_def
    by (simp add: First_service_eq Delete_capabilities_eq Delete_categories_eq
        Delete_metadata_eq Delete_service_eq fails_simps not_referenced_after_deletes)
qed

lemma without_simps:
  "mcp_services (without ids db) = filter (\<lambda>x. ID x \<notin> set ids) (mcp_services db)"
  "capabilities (without ids db) = filter (\<lambda>x. cap_ServiceID x \<notin> set ids) (capabilities db)"
  "categories (without ids db) = filter (\<lambda>x. cat_ServiceID x \<notin> set ids) (categories db)"
  "metadata_items (without ids db) =
     filter (\<lambda>x. md_ServiceID x \<notin> set ids) (metadata_items db)"
  by (simp_all add: without_def)

text \<open>
  With unique keys, the services left by a cycle that meets no failure are exactly those that
  are not stale.
\<close>

lemma prune_cycle_services:
  assumes "wf_store db"
  shows "mcp_services (fst (prune_cycle threshold now (db, []))) =
           filter (\<lambda>x. \<not> stale threshold now x) (mcp_services db)"
proof -
  let ?ids = "set (map ID (filter (stale threshold now) (mcp_services db)))"
  have a: "(ID x \<notin> ?ids) = (\<not> stale threshold now x)" if x: "x \<in> set (mcp_services db)" for x
  proof
    assume "ID x \<notin> ?ids"
    with x show "\<not> stale threshold now x" by force
  next
    assume n: "\<not> stale threshold now x"
    show "ID x \<notin> ?ids"
    proof
      assume "ID x \<in> ?ids"
      then obtain y where y: "y \<in> set (mcp_services db)" "stale threshold now y" "ID y = ID x"
        by auto
      from assms have "distinct (map ID (mcp_services db))" by (simp add: wf_store_def)
      from unique_row [OF this x y(1) y(3)] y(2) n show False by simp
    qed
  qed
  have "mcp_services (fst (prune_cycle threshold now (db, []))) =
        filter (\<lambda>x. ID x \<notin> ?ids) (mcp_services db)"
    by (simp only: prune_cycle_ok without_simps fst_conv)
  also have "\<dots> = filter (\<lambda>x. \<not> stale threshold now x) (mcp_services db)"
    by (rule filter_cong [OF refl]) (rule a)
  finally show ?thesis .
qed

lemma Delete_part_001_cases:
  assumes "lookup sid db = Some s" and "sid \<noteq> []"
  shows "(fst (DeleteServiceHandler_part_001 sid (db, fs)),
          fst (snd (DeleteServiceHandler_part_001 sid (db, fs)))) =
     (if fails fs then (Inl (NotFound ''Service not found''), db)
      else if fails (tl fs)
      then (Inl (InternalServerError ''Failed to start transaction''), db)
      else if fails (tl (tl fs))
      then (Inl (InternalServerError ''Failed to delete capabilities''), db)
      else if fails (tl (tl (tl fs)))
      then (Inl (InternalServerError ''Failed to delete categories''), db)
      else if fails (tl (tl (tl (tl fs))))
      then (Inl (InternalServerError ''Failed to delete metadata''), db)
      else if fails (tl (tl (tl (tl (tl fs)))))
      then (Inl (InternalServerError ''Failed to delete service''), db)
      else if fails (tl (tl (tl (tl (tl (tl fs))))))
      then (Inl (InternalServerError ''Failed to commit transaction''), db)
      else (Inr ''Service unregistered'', unregister_effect sid db))"
  using assms lookup_Some [OF assms(1)] unfolding DeleteServiceHandler_part_001_def
  by (simp add: First_service_eq Begin_eq or_rollback_eq Delete_capabilities_eq
      Delete_categories_eq Delete_metadata_eq Delete_service_eq Commit_eq
      unregister_effect_def not_referenced_after_deletes)

lemma find_filter_unique:
  "distinct (map ID xs) \<Longrightarrow>
   find (\<lambda>x. ID x = sid) (filter Q xs) =
     (case find (\<lambda>x. ID x = sid) xs of
        None \<Rightarrow> None
      | Some s \<Rightarrow> if Q s then Some s else None)"
proof (induction xs)
  case Nil
  show ?case by simp
next
  case (Cons x xs)
  show ?case
  proof (cases "ID x = sid")
    case True
    from Cons.prems have "ID x \<notin> ID ` set xs"
      by simp
    with True have "\<not> (\<exists>y. y \<in> set (filter Q xs) \<and> ID y = sid)"
      by (metis filter_is_subset imageI subsetD)
    then have "find (\<lambda>x. ID x = sid) (filter Q xs) = None"
      by (simp add: find_None_iff)
    with True show ?thesis by simp
  next
    case False
    with Cons show ?thesis by simp
  qed
qed

lemma children_without:
  "capabilities_of sid (without ids db) = (if sid \<in> set ids then [] else capabilities_of sid db)"
  "categories_of sid (without ids db) = (if sid \<in> set ids then [] else categories_of sid db)"
  "metadata_of sid (without ids db) = (if sid \<in> set ids then [] else metadata_of sid db)"
  by (auto simp: capabilities_of_def categories_of_def metadata_of_def without_simps
      filter_empty_conv intro: filter_cong)

text \<open>
  A cycle that meets no failure, on a store with unique keys: a stale service is gone together
  with its child rows, and any other service and its child rows are as before. A service is
  stale when its \<open>last_seen\<close> is earlier than \<open>now\<close> minus the threshold of the loop.
\<close>

lemma prune_cycle_effect:
  assumes "wf_store db" and "lookup sid db = Some s"
  shows "stale threshold now s \<Longrightarrow>
           lookup sid (fst (prune_cycle threshold now (db, []))) = None \<and>
           capabilities_of sid (fst (prune_cycle threshold now (db, []))) = [] \<and>
           categories_of sid (fst (prune_cycle threshold now (db, []))) = [] \<and>
           metadata_of sid (fst (prune_cycle threshold now (db, []))) = []"
    and "\<not> stale threshold now s \<Longrightarrow>
           lookup sid (fst (prune_cycle threshold now (db, []))) = Some s \<and>
           capabilities_of sid (fst (prune_cycle threshold now (db, []))) =
             capabilities_of sid db \<and>
           categories_of sid (fst (prune_cycle threshold now (db, []))) = categories_of sid db \<and>
           metadata_of sid (fst (prune_cycle threshold now (db, []))) = metadata_of sid db"
proof -
  from assms(1) have d: "distinct (map ID (mcp_services db))"
    by (simp add: wf_store_def)
  from lookup_Some [OF assms(2)] have mem: "s \<in> set (mcp_services db)" and id: "ID s = sid"
    by simp_all
  have l: "lookup sid (fst (prune_cycle threshold now (db, []))) =
             (if stale threshold now s then None else Some s)"
    using assms(2)
    by (simp add: lookup_def prune_cycle_services [OF assms(1)] find_filter_unique [OF d])
  have i: "(sid \<in> set (map ID (filter (stale threshold now) (mcp_services db)))) =
           stale threshold now s"
  proof
    assume "sid \<in> set (map ID (filter (stale threshold now) (mcp_services db)))"
    then obtain y where y: "y \<in> set (mcp_services db)" "stale threshold now y" "ID y = sid"
      by auto
    from unique_row [OF d mem y(1)] y(3) id have "y = s" by simp
    with y(2) show "stale threshold now s" by simp
  next
    assume "stale threshold now s"
    with mem id show "sid \<in> set (map ID (filter (stale threshold now) (mcp_services db)))"
      by force
  qed
  have ch: "capabilities_of sid (fst (prune_cycle threshold now (db, []))) =
              (if stale threshold now s then [] else capabilities_of sid db)"
    "categories_of sid (fst (prune_cycle threshold now (db, []))) =
              (if stale threshold now s then [] else categories_of sid db)"
    "metadata_of sid (fst (prune_cycle threshold now (db, []))) =
              (if stale threshold now s then [] else metadata_of sid db)"
    by (simp_all only: prune_cycle_ok fst_conv children_without i)
  show "stale threshold now s \<Longrightarrow>
           lookup sid (fst (prune_cycle threshold now (db, []))) = None \<and>
           capabilities_of sid (fst (prune_cycle threshold now (db, []))) = [] \<and>
           categories_of sid (fst (prune_cycle threshold now (db, []))) = [] \<and>
           metadata_of sid (fst (prune_cycle threshold now (db, []))) = []"
    using l ch by simp
  show "\<not> stale threshold now s \<Longrightarrow>
           lookup sid (fst (prune_cycle threshold now (db, []))) = Some s \<and>
           capabilities_of sid (fst (prune_cycle threshold now (db, []))) =
             capabilities_of sid db \<and>
           categories_of sid (fst (prune_cycle threshold now (db, []))) = categories_of sid db \<and>
           metadata_of sid (fst (prune_cycle threshold now (db, []))) = metadata_of sid db"
    using l ch by simp
qed

text \<open>The example of the specification, for the loop of \<open>part_002\<close>.\<close>

lemma prune_cycle_example:
  assumes "wf_store db" and "lookup a db = Some sa" and "LastSeen sa = now - 2 * Hour"
    and "lookup b db = Some sb" and "LastSeen sb = now - 30 * Minute"
  shows "lookup a (fst (prune_cycle_part_002 now (db, []))) = None \<and>
         lookup b (fst (prune_cycle_part_002 now (db, []))) = Some sb"
proof -
  from assms(3,5) have "stale (1 * Hour) now sa" and "\<not> stale (1 * Hour) now sb"
    by (simp_all add: stale_def Hour_def Minute_def)
  with prune_cycle_effect [OF assms(1,2), of "1 * Hour" now]
    prune_cycle_effect [OF assms(1,4), of "1 * Hour" now]
  show ?thesis
    by (simp add: prune_cycle_part_002_def)
qed

text \<open>
  C2 fails where a deletion of the pruning loop fails. The service of \<open>sample_store\<close> is
  stale. When the deletion of its row fails (fifth statement of the cycle), its child rows are
  gone and the row stays; when the deletion of its capabilities fails (second statement), its
  category and its metadata item are gone, and the row and the capability stay, since the
  foreign key rejects the deletion of the row. The loop of \<open>part_003\<close> behaves alike.
  Explicit unregistration in \<open>part_001\<close>, with the deletion of the row failing, answers 500
  and leaves the store as it was.
\<close>

theorem Prune_deletion_not_atomic:
  "stale (1 * Hour) (100 + 2 * Hour) (hd (mcp_services sample_store)) \<and>
   fst (prune_cycle_part_002 (100 + 2 * Hour)
          (sample_store, [False, False, False, False, True])) =
     sample_store\<lparr>capabilities := [], categories := [], metadata_items := []\<rparr> \<and>
   fst (prune_cycle_part_002 (100 + 2 * Hour) (sample_store, [False, True])) =
     sample_store\<lparr>categories := [], metadata_items := []\<rparr> \<and>
   fst (prune_cycle_part_003 (100 + 2 * Hour)
          (sample_store, [False, False, False, False, True])) =
     sample_store\<lparr>capabilities := [], categories := [], metadata_items := []\<rparr> \<and>
   StoreError (fst (DeleteServiceHandler_part_001 ''id-1''
                      (sample_store, [False, False, False, False, False, True]))) \<and>
   fst (snd (DeleteServiceHandler_part_001 ''id-1''
               (sample_store, [False, False, False, False, False, True]))) = sample_store"
proof -
  have l: "lookup ''id-1'' sample_store = Some (hd (mcp_services sample_store))"
    by (simp add: lookup_def sample_store_def)
  have "stale (1 * Hour) (100 + 2 * Hour) (hd (mcp_services sample_store))"
    by (simp add: stale_def sample_store_def Hour_def Minute_def)
  moreover have "fst (prune_cycle_part_002 (100 + 2 * Hour)
          (sample_store, [False, False, False, False, True])) =
     sample_store\<lparr>capabilities := [], categories := [], metadata_items := []\<rparr>"
    by (simp add: prune_cycle_part_002_def prune_cycle_def Find_inactive_def fails_simps
        entries_def Delete_capabilities_eq Delete_categories_eq Delete_metadata_eq
        Delete_service_eq referenced_def sample_store_def Hour_def Minute_def)
  moreover have "fst (prune_cycle_part_002 (100 + 2 * Hour) (sample_store, [False, True])) =
     sample_store\<lparr>categories := [], metadata_items := []\<rparr>"
    by (simp add: prune_cycle_part_002_def prune_cycle_def Find_inactive_def fails_simps
        entries_def Delete_capabilities_eq Delete_categories_eq Delete_metadata_eq
        Delete_service_eq referenced_def sample_store_def Hour_def Minute_def)
  moreover have "fst (prune_cycle_part_003 (100 + 2 * Hour)
          (sample_store, [False, False, False, False, True])) =
     sample_store\<lparr>capabilities := [], categories := [], metadata_items := []\<rparr>"
    by (simp add: prune_cycle_part_003_def prune_cycle_def Find_inactive_def fails_simps
        entries_def Delete_capabilities_eq Delete_categories_eq Delete_metadata_eq
        Delete_service_eq referenced_def sample_store_def Hour_def Minute_def)
  moreover have "StoreError (fst (DeleteServiceHandler_part_001 ''id-1''
                      (sample_store, [False, False, False, False, False, True]))) \<and>
   fst (snd (DeleteServiceHandler_part_001 ''id-1''
               (sample_store, [False, False, False, False, False, True]))) = sample_store"
    using Delete_part_001_cases [OF l, of "[False, False, False, False, False, True]"]
    by (simp add: fails_simps StoreError_simps)
  ultimately show ?thesis by blast
qed

end
